theory Spec2Isabelle
  imports Main "HOL-Library.Word" "HOL-Library.Monad_Syntax"
begin

section \<open>Python values of the mediated-transfer state module\<close>

text \<open>
  The module \<^verbatim>\<open>raiden/transfer/mediated_transfer/state.py\<close> defines the state
  classes of the initiator, mediator and target roles. Every \<^verbatim>\<open>raise ValueError(...)\<close>
  of a constructor is a value \<open>Inl (ValueError msg)\<close> of the model.
\<close>

datatype error = ValueError string

text \<open>
  A Python \<^verbatim>\<open>bytes\<close> object has an identity and a content. The operator \<^verbatim>\<open>is\<close>
  compares identities, the operator \<^verbatim>\<open>==\<close> compares contents. The state module
  uses both, so both are kept.
\<close>

record pybytes =
  oid :: nat
  content :: "8 word list"

definition bytes_is :: "pybytes \<Rightarrow> pybytes \<Rightarrow> bool" where
  "bytes_is a b = (oid a = oid b)"

definition bytes_eq :: "pybytes \<Rightarrow> pybytes \<Rightarrow> bool" where
  "bytes_eq a b = (content a = content b)"

text \<open>
  Python's \<^verbatim>\<open>==\<close> on a field that holds either \<^verbatim>\<open>None\<close> or an object:
  \<^verbatim>\<open>None == None\<close> is true, \<^verbatim>\<open>None\<close> equals no object, two objects are compared
  by the equality of their class.
\<close>

fun option_eq :: "('a \<Rightarrow> 'a \<Rightarrow> bool) \<Rightarrow> 'a option \<Rightarrow> 'a option \<Rightarrow> bool" where
  "option_eq eq None None = True"
| "option_eq eq (Some a) (Some b) = eq a b"
| "option_eq eq _ _ = False"

section \<open>Channel substates imported from \<^verbatim>\<open>raiden.transfer.state\<close>\<close>

text \<open>
  Modelled from the spec: the class \<^verbatim>\<open>HashTimeLockState\<close> of \<^verbatim>\<open>raiden.transfer.state\<close>
  is imported by the state module and its source is not among the files. The
  specification gives it as \<^verbatim>\<open>{amount, expiration, secrethash}\<close>, \<^verbatim>\<open>expiration\<close> a
  block number; these are also the three positional arguments that
  \<^verbatim>\<open>lockedtransfersigned_from_message\<close> passes.
\<close>

record HashTimeLockState =
  amount :: int
  expiration :: int
  secrethash :: pybytes

text \<open>
  Modelled from the spec: the constructor of \<^verbatim>\<open>HashTimeLockState\<close> (source absent)
  stores its three arguments.
\<close>

definition HashTimeLockState_init :: "int \<Rightarrow> int \<Rightarrow> pybytes \<Rightarrow> HashTimeLockState" where
  "HashTimeLockState_init amount' expiration' secrethash' =
     \<lparr>HashTimeLockState.amount = amount',
      HashTimeLockState.expiration = expiration',
      HashTimeLockState.secrethash = secrethash'\<rparr>"

text \<open>
  Modelled from the spec: the class \<^verbatim>\<open>BalanceProofUnsignedState\<close> of
  \<^verbatim>\<open>raiden.transfer.state\<close> (source absent), given by the specification as
  \<^verbatim>\<open>{nonce, transferred_amount, locksroot, channel_identifier, message_hash}\<close>.
\<close>

record BalanceProofUnsignedState =
  nonce :: int
  transferred_amount :: int
  locksroot :: pybytes
  channel_identifier :: pybytes
  message_hash :: pybytes

text \<open>
  Modelled from the spec: the class \<^verbatim>\<open>BalanceProofSignedState\<close> of
  \<^verbatim>\<open>raiden.transfer.state\<close> (source absent): the unsigned fields plus
  \<^verbatim>\<open>{signature, sender}\<close>. The field order is the order of the seven positional
  arguments in \<^verbatim>\<open>lockedtransfersigned_from_message\<close>.
\<close>

record BalanceProofSignedState =
  nonce :: int
  transferred_amount :: int
  locksroot :: pybytes
  channel_identifier :: pybytes
  message_hash :: pybytes
  signature :: pybytes
  sender :: pybytes

text \<open>
  Modelled from the spec: the constructor of \<^verbatim>\<open>BalanceProofSignedState\<close> (source
  absent) stores its seven arguments.
\<close>

definition BalanceProofSignedState_init ::
  "int \<Rightarrow> int \<Rightarrow> pybytes \<Rightarrow> pybytes \<Rightarrow> pybytes \<Rightarrow> pybytes \<Rightarrow> pybytes \<Rightarrow> BalanceProofSignedState" where
  "BalanceProofSignedState_init nonce' transferred_amount' locksroot' channel' message_hash' signature' sender' =
     \<lparr>BalanceProofSignedState.nonce = nonce',
      BalanceProofSignedState.transferred_amount = transferred_amount',
      BalanceProofSignedState.locksroot = locksroot',
      BalanceProofSignedState.channel_identifier = channel',
      BalanceProofSignedState.message_hash = message_hash',
      BalanceProofSignedState.signature = signature',
      BalanceProofSignedState.sender = sender'\<rparr>"

section \<open>The state classes\<close>

text \<open>
  One record per class, with the fields its \<^verbatim>\<open>__init__\<close> assigns. A field that the
  constructor guards with \<^verbatim>\<open>isinstance\<close> has the guarded class as its type; an
  unguarded field has the type of its annotation (\<^verbatim>\<open>typing.Address\<close>,
  \<^verbatim>\<open>typing.Secret\<close> and \<^verbatim>\<open>typing.Keccak256\<close> are byte strings, amounts and
  identifiers are integers). The slot \<^verbatim>\<open>hahslock\<close> of \<^verbatim>\<open>TargetTransferState\<close> is
  declared and never assigned, so it holds no value.

  Objects of classes that the module only names in annotations (\<^verbatim>\<open>RouteState\<close>,
  the stored secret request and reveal secret) are values of the type parameter
  \<open>'o\<close>.

  A field name is also the name of its selector, so a constructor's argument
  \<^verbatim>\<open>lock\<close> is written \<open>lock'\<close>, and a selector is written with its class:
  \<open>LockedTransferSignedState.lock\<close>.
\<close>

record LockedTransferUnsignedState =
  "identifier" :: int
  token :: pybytes
  balance_proof :: BalanceProofUnsignedState
  lock :: HashTimeLockState
  initiator :: pybytes
  target :: pybytes

record LockedTransferSignedState =
  "identifier" :: int
  token :: pybytes
  balance_proof :: BalanceProofSignedState
  lock :: HashTimeLockState
  initiator :: pybytes
  target :: pybytes

record TransferDescriptionWithSecretState =
  "identifier" :: int
  amount :: int
  registry :: pybytes
  token :: pybytes
  initiator :: pybytes
  target :: pybytes
  secret :: pybytes
  secrethash :: pybytes

record InitiatorPaymentState =
  initiator :: pybytes
  cancelled_channels :: "pybytes list"

record 'o InitiatorTransferState =
  transfer_description :: TransferDescriptionWithSecretState
  channel_identifier :: pybytes
  transfer :: "LockedTransferUnsignedState option"
  secretrequest :: "'o option"
  revealsecret :: "'o option"

record MediationPairState =
  payee_address :: pybytes
  payee_transfer :: LockedTransferUnsignedState
  payee_state :: string
  payer_transfer :: LockedTransferSignedState
  payer_state :: string

record MediatorTransferState =
  secrethash :: pybytes
  secret :: "pybytes option"
  transfers_pair :: "MediationPairState list"

record 'o TargetTransferState =
  route :: 'o
  transfer :: LockedTransferSignedState
  secret :: "pybytes option"
  state :: string

text \<open>
  A constructor argument that is tested with \<^verbatim>\<open>isinstance\<close>, and the right operand
  of \<^verbatim>\<open>__eq__\<close>, can be any Python value: \<^verbatim>\<open>isinstance(v, C)\<close> is a match on the
  constructor of class \<open>C\<close>.
\<close>

datatype 'o pyval =
    VNone
  | VInt int
  | VStr string
  | VBytes pybytes
  | VForeign 'o
  | VHashTimeLockState HashTimeLockState
  | VBalanceProofUnsignedState BalanceProofUnsignedState
  | VBalanceProofSignedState BalanceProofSignedState
  | VLockedTransferUnsignedState LockedTransferUnsignedState
  | VLockedTransferSignedState LockedTransferSignedState
  | VTransferDescriptionWithSecretState TransferDescriptionWithSecretState
  | VInitiatorPaymentState InitiatorPaymentState
  | VInitiatorTransferState "'o InitiatorTransferState"
  | VMediationPairState MediationPairState
  | VMediatorTransferState MediatorTransferState
  | VTargetTransferState "'o TargetTransferState"

subsection \<open>Constructors\<close>

definition InitiatorPaymentState_init :: "pybytes \<Rightarrow> InitiatorPaymentState" where
  "InitiatorPaymentState_init initiator' =
     \<lparr>InitiatorPaymentState.initiator = initiator',
      InitiatorPaymentState.cancelled_channels = []\<rparr>"

definition InitiatorTransferState_init ::
  "'o pyval \<Rightarrow> pybytes \<Rightarrow> error + 'o InitiatorTransferState" where
  "InitiatorTransferState_init transfer_description' channel_identifier' =
     (case transfer_description' of
        VTransferDescriptionWithSecretState description \<Rightarrow>
          Inr \<lparr>InitiatorTransferState.transfer_description = description,
               InitiatorTransferState.channel_identifier = channel_identifier',
               InitiatorTransferState.transfer = None,
               InitiatorTransferState.secretrequest = None,
               InitiatorTransferState.revealsecret = None\<rparr>
      | _ \<Rightarrow>
          Inl (ValueError
            ''transfer_description must be an instance of TransferDescriptionWithSecretState''))"

definition MediatorTransferState_init :: "pybytes \<Rightarrow> MediatorTransferState" where
  "MediatorTransferState_init secrethash' =
     \<lparr>MediatorTransferState.secrethash = secrethash',
      MediatorTransferState.secret = None,
      MediatorTransferState.transfers_pair = []\<rparr>"

definition TargetTransferState_valid_states :: "string list" where
  "TargetTransferState_valid_states =
     [''secret_request'', ''reveal_secret'', ''waiting_close'', ''expired'']"

definition TargetTransferState_init ::
  "'o \<Rightarrow> LockedTransferSignedState \<Rightarrow> 'o TargetTransferState" where
  "TargetTransferState_init route' transfer' =
     \<lparr>TargetTransferState.route = route',
      TargetTransferState.transfer = transfer',
      TargetTransferState.secret = None,
      TargetTransferState.state = ''secret_request''\<rparr>"

text \<open>
  The two locked-transfer constructors test the lock, then the balance proof, then
  compare the balance proof's locksroot with the module constant
  \<^verbatim>\<open>EMPTY_MERKLE_ROOT\<close> by identity (\<^verbatim>\<open>is\<close>). The constant is imported from
  \<^verbatim>\<open>raiden.transfer.state\<close>, whose source is absent; it is the first parameter.
\<close>

definition LockedTransferUnsignedState_init ::
  "pybytes \<Rightarrow> int \<Rightarrow> pybytes \<Rightarrow> 'o pyval \<Rightarrow> 'o pyval \<Rightarrow> pybytes \<Rightarrow> pybytes
     \<Rightarrow> error + LockedTransferUnsignedState" where
  "LockedTransferUnsignedState_init EMPTY_MERKLE_ROOT identifier' token' balance_proof' lock' initiator' target' =
     (case lock' of
        VHashTimeLockState the_lock \<Rightarrow>
          (case balance_proof' of
             VBalanceProofUnsignedState the_balance_proof \<Rightarrow>
               if bytes_is (BalanceProofUnsignedState.locksroot the_balance_proof) EMPTY_MERKLE_ROOT
               then Inl (ValueError ''balance_proof must not be empty'')
               else Inr \<lparr>LockedTransferUnsignedState.identifier = identifier',
                         LockedTransferUnsignedState.token = token',
                         LockedTransferUnsignedState.balance_proof = the_balance_proof,
                         LockedTransferUnsignedState.lock = the_lock,
                         LockedTransferUnsignedState.initiator = initiator',
                         LockedTransferUnsignedState.target = target'\<rparr>
           | _ \<Rightarrow> Inl (ValueError ''balance_proof must be a BalanceProofUnsignedState instance''))
      | _ \<Rightarrow> Inl (ValueError ''lock must be a HashTimeLockState instance''))"

definition LockedTransferSignedState_init ::
  "pybytes \<Rightarrow> int \<Rightarrow> pybytes \<Rightarrow> 'o pyval \<Rightarrow> 'o pyval \<Rightarrow> pybytes \<Rightarrow> pybytes
     \<Rightarrow> error + LockedTransferSignedState" where
  "LockedTransferSignedState_init EMPTY_MERKLE_ROOT identifier' token' balance_proof' lock' initiator' target' =
     (case lock' of
        VHashTimeLockState the_lock \<Rightarrow>
          (case balance_proof' of
             VBalanceProofSignedState the_balance_proof \<Rightarrow>
               if bytes_is (BalanceProofSignedState.locksroot the_balance_proof) EMPTY_MERKLE_ROOT
               then Inl (ValueError ''balance_proof must not be empty'')
               else Inr \<lparr>LockedTransferSignedState.identifier = identifier',
                         LockedTransferSignedState.token = token',
                         LockedTransferSignedState.balance_proof = the_balance_proof,
                         LockedTransferSignedState.lock = the_lock,
                         LockedTransferSignedState.initiator = initiator',
                         LockedTransferSignedState.target = target'\<rparr>
           | _ \<Rightarrow> Inl (ValueError ''balance_proof must be a BalanceProofSignedState instance''))
      | _ \<Rightarrow> Inl (ValueError ''lock must be a HashTimeLockState instance''))"

text \<open>
  \<^verbatim>\<open>TransferDescriptionWithSecretState.__init__\<close> hashes the secret with
  \<^verbatim>\<open>raiden.utils.sha3\<close> (the keccak256 helper, source absent), taken as the
  parameter \<open>sha3\<close>.
\<close>

definition TransferDescriptionWithSecretState_init ::
  "(pybytes \<Rightarrow> pybytes) \<Rightarrow> int \<Rightarrow> int \<Rightarrow> pybytes \<Rightarrow> pybytes \<Rightarrow> pybytes \<Rightarrow> pybytes \<Rightarrow> pybytes
     \<Rightarrow> TransferDescriptionWithSecretState" where
  "TransferDescriptionWithSecretState_init sha3 identifier' amount' registry' token' initiator' target' secret' =
     (let secrethash' = sha3 secret' in
      \<lparr>TransferDescriptionWithSecretState.identifier = identifier',
       TransferDescriptionWithSecretState.amount = amount',
       TransferDescriptionWithSecretState.registry = registry',
       TransferDescriptionWithSecretState.token = token',
       TransferDescriptionWithSecretState.initiator = initiator',
       TransferDescriptionWithSecretState.target = target',
       TransferDescriptionWithSecretState.secret = secret',
       TransferDescriptionWithSecretState.secrethash = secrethash'\<rparr>)"

definition MediationPairState_valid_payee_states :: "string list" where
  "MediationPairState_valid_payee_states =
     [''payee_pending'', ''payee_secret_revealed'', ''payee_refund_withdraw'',
      ''payee_contract_withdraw'', ''payee_balance_proof'', ''payee_expired'']"

definition MediationPairState_valid_payer_states :: "string list" where
  "MediationPairState_valid_payer_states =
     [''payer_pending'', ''payer_secret_revealed'', ''payer_waiting_close'',
      ''payer_waiting_withdraw'', ''payer_contract_withdraw'', ''payer_balance_proof'',
      ''payer_expired'']"

text \<open>
  Modelled from the spec: \<^verbatim>\<open>typing.T_Address\<close> of \<^verbatim>\<open>raiden.utils.typing\<close> (source
  absent) is the runtime class of an \<^verbatim>\<open>Address\<close>, which the specification gives as
  an opaque byte identifier: \<^verbatim>\<open>isinstance(v, typing.T_Address)\<close> holds of byte
  strings and of nothing else. \<^verbatim>\<open>isinstance\<close> tests the class only, not the length.
  \<open>T_Address_instance v\<close> is \<open>Some b\<close> when the test holds of \<open>v\<close>, the byte string \<open>b\<close>.
\<close>

definition T_Address_instance :: "'o pyval \<Rightarrow> pybytes option" where
  "T_Address_instance v = (case v of VBytes b \<Rightarrow> Some b | _ \<Rightarrow> None)"

definition MediationPairState_init ::
  "'o pyval \<Rightarrow> 'o pyval \<Rightarrow> 'o pyval \<Rightarrow> error + MediationPairState" where
  "MediationPairState_init payer_transfer' payee_address' payee_transfer' =
     (case payer_transfer' of
        VLockedTransferSignedState payer \<Rightarrow>
          (case T_Address_instance payee_address' of
             Some address \<Rightarrow>
               (case payee_transfer' of
                  VLockedTransferUnsignedState payee \<Rightarrow>
                    Inr \<lparr>MediationPairState.payee_address = address,
                         MediationPairState.payee_transfer = payee,
                         MediationPairState.payee_state = ''payee_pending'',
                         MediationPairState.payer_transfer = payer,
                         MediationPairState.payer_state = ''payer_pending''\<rparr>
                | _ \<Rightarrow> Inl (ValueError
                         ''payee_transfer must be a LockedTransferUnsignedState instance''))
           | None \<Rightarrow> Inl (ValueError ''payee_address must be an address''))
      | _ \<Rightarrow> Inl (ValueError ''payer_transfer must be a LockedTransferSignedState instance''))"

subsection \<open>From a received message to a signed transfer\<close>

text \<open>
  Modelled from the spec: the \<^verbatim>\<open>LockedTransfer\<close> message class of
  \<^verbatim>\<open>raiden.messages\<close> (source absent), as the attributes that
  \<^verbatim>\<open>lockedtransfersigned_from_message\<close> reads from its argument; \<^verbatim>\<open>message.lock\<close>
  is an object with the attributes \<^verbatim>\<open>amount\<close>, \<^verbatim>\<open>expiration\<close> and \<^verbatim>\<open>secrethash\<close>.
\<close>

record Lock =
  amount :: int
  expiration :: int
  secrethash :: pybytes

record LockedTransfer =
  nonce :: int
  transferred_amount :: int
  locksroot :: pybytes
  channel :: pybytes
  message_hash :: pybytes
  signature :: pybytes
  sender :: pybytes
  lock :: Lock
  "identifier" :: int
  token :: pybytes
  initiator :: pybytes
  target :: pybytes

definition lockedtransfersigned_from_message ::
  "pybytes \<Rightarrow> LockedTransfer \<Rightarrow> error + LockedTransferSignedState" where
  "lockedtransfersigned_from_message EMPTY_MERKLE_ROOT message =
     (let balance_proof' = BalanceProofSignedState_init
            (LockedTransfer.nonce message)
            (LockedTransfer.transferred_amount message)
            (LockedTransfer.locksroot message)
            (LockedTransfer.channel message)
            (LockedTransfer.message_hash message)
            (LockedTransfer.signature message)
            (LockedTransfer.sender message);
          lock' = HashTimeLockState_init
            (Lock.amount (LockedTransfer.lock message))
            (Lock.expiration (LockedTransfer.lock message))
            (Lock.secrethash (LockedTransfer.lock message));
          transfer_state = LockedTransferSignedState_init EMPTY_MERKLE_ROOT
            (LockedTransfer.identifier message)
            (LockedTransfer.token message)
            (VBalanceProofSignedState balance_proof' :: unit pyval)
            (VHashTimeLockState lock')
            (LockedTransfer.initiator message)
            (LockedTransfer.target message)
      in transfer_state)"

section \<open>Equality of state values\<close>

text \<open>
  Each class defines \<^verbatim>\<open>__eq__(self, other)\<close> as \<^verbatim>\<open>isinstance(other, Class)\<close> followed
  by the comparison of the fields with \<^verbatim>\<open>==\<close>, joined by \<^verbatim>\<open>and\<close>, and
  \<^verbatim>\<open>__ne__\<close> as \<^verbatim>\<open>not self.__eq__(other)\<close>. On integers and strings \<^verbatim>\<open>==\<close> is
  equality, on byte strings it is \<open>bytes_eq\<close>, on a field that may be \<^verbatim>\<open>None\<close> it
  is \<open>option_eq\<close>, on lists it compares the lengths and then element by element
  (\<open>list_all2\<close>), and on an object of a state class it is that class's \<^verbatim>\<open>__eq__\<close>.
\<close>

text \<open>
  Modelled from the spec: \<^verbatim>\<open>HashTimeLockState.__eq__\<close> (source absent). The
  specification says that all state is compared structurally.
\<close>

definition HashTimeLockState_eq :: "HashTimeLockState \<Rightarrow> 'o pyval \<Rightarrow> bool" where
  "HashTimeLockState_eq self other =
     (case other of
        VHashTimeLockState other' \<Rightarrow>
          HashTimeLockState.amount self = HashTimeLockState.amount other'
          \<and> HashTimeLockState.expiration self = HashTimeLockState.expiration other'
          \<and> bytes_eq (HashTimeLockState.secrethash self) (HashTimeLockState.secrethash other')
      | _ \<Rightarrow> False)"

text \<open>
  Modelled from the spec: \<^verbatim>\<open>BalanceProofUnsignedState.__eq__\<close> (source absent),
  structural as the specification says.
\<close>

definition BalanceProofUnsignedState_eq :: "BalanceProofUnsignedState \<Rightarrow> 'o pyval \<Rightarrow> bool" where
  "BalanceProofUnsignedState_eq self other =
     (case other of
        VBalanceProofUnsignedState other' \<Rightarrow>
          BalanceProofUnsignedState.nonce self = BalanceProofUnsignedState.nonce other'
          \<and> BalanceProofUnsignedState.transferred_amount self
              = BalanceProofUnsignedState.transferred_amount other'
          \<and> bytes_eq (BalanceProofUnsignedState.locksroot self)
                (BalanceProofUnsignedState.locksroot other')
          \<and> bytes_eq (BalanceProofUnsignedState.channel_identifier self)
                (BalanceProofUnsignedState.channel_identifier other')
          \<and> bytes_eq (BalanceProofUnsignedState.message_hash self)
                (BalanceProofUnsignedState.message_hash other')
      | _ \<Rightarrow> False)"

text \<open>
  Modelled from the spec: \<^verbatim>\<open>BalanceProofSignedState.__eq__\<close> (source absent),
  structural as the specification says.
\<close>

definition BalanceProofSignedState_eq :: "BalanceProofSignedState \<Rightarrow> 'o pyval \<Rightarrow> bool" where
  "BalanceProofSignedState_eq self other =
     (case other of
        VBalanceProofSignedState other' \<Rightarrow>
          BalanceProofSignedState.nonce self = BalanceProofSignedState.nonce other'
          \<and> BalanceProofSignedState.transferred_amount self
              = BalanceProofSignedState.transferred_amount other'
          \<and> bytes_eq (BalanceProofSignedState.locksroot self)
                (BalanceProofSignedState.locksroot other')
          \<and> bytes_eq (BalanceProofSignedState.channel_identifier self)
                (BalanceProofSignedState.channel_identifier other')
          \<and> bytes_eq (BalanceProofSignedState.message_hash self)
                (BalanceProofSignedState.message_hash other')
          \<and> bytes_eq (BalanceProofSignedState.signature self)
                (BalanceProofSignedState.signature other')
          \<and> bytes_eq (BalanceProofSignedState.sender self)
                (BalanceProofSignedState.sender other')
      | _ \<Rightarrow> False)"

text \<open>
  The eight classes of the state module, each after the classes of its fields.
\<close>

definition InitiatorPaymentState_eq :: "InitiatorPaymentState \<Rightarrow> 'o pyval \<Rightarrow> bool" where
  "InitiatorPaymentState_eq self other =
     (case other of
        VInitiatorPaymentState other' \<Rightarrow>
          bytes_eq (InitiatorPaymentState.initiator self) (InitiatorPaymentState.initiator other')
          \<and> list_all2 bytes_eq (InitiatorPaymentState.cancelled_channels self)
                (InitiatorPaymentState.cancelled_channels other')
      | _ \<Rightarrow> False)"

definition InitiatorPaymentState_ne :: "InitiatorPaymentState \<Rightarrow> 'o pyval \<Rightarrow> bool" where
  "InitiatorPaymentState_ne self other = (\<not> InitiatorPaymentState_eq self other)"

definition LockedTransferUnsignedState_eq :: "LockedTransferUnsignedState \<Rightarrow> 'o pyval \<Rightarrow> bool" where
  "LockedTransferUnsignedState_eq self other =
     (case other of
        VLockedTransferUnsignedState other' \<Rightarrow>
          LockedTransferUnsignedState.identifier self = LockedTransferUnsignedState.identifier other'
          \<and> bytes_eq (LockedTransferUnsignedState.token self) (LockedTransferUnsignedState.token other')
          \<and> BalanceProofUnsignedState_eq (LockedTransferUnsignedState.balance_proof self)
                (VBalanceProofUnsignedState (LockedTransferUnsignedState.balance_proof other')
                   :: 'o pyval)
          \<and> HashTimeLockState_eq (LockedTransferUnsignedState.lock self)
                (VHashTimeLockState (LockedTransferUnsignedState.lock other') :: 'o pyval)
          \<and> bytes_eq (LockedTransferUnsignedState.initiator self)
                (LockedTransferUnsignedState.initiator other')
          \<and> bytes_eq (LockedTransferUnsignedState.target self)
                (LockedTransferUnsignedState.target other')
      | _ \<Rightarrow> False)"

definition LockedTransferUnsignedState_ne :: "LockedTransferUnsignedState \<Rightarrow> 'o pyval \<Rightarrow> bool" where
  "LockedTransferUnsignedState_ne self other = (\<not> LockedTransferUnsignedState_eq self other)"

definition LockedTransferSignedState_eq :: "LockedTransferSignedState \<Rightarrow> 'o pyval \<Rightarrow> bool" where
  "LockedTransferSignedState_eq self other =
     (case other of
        VLockedTransferSignedState other' \<Rightarrow>
          LockedTransferSignedState.identifier self = LockedTransferSignedState.identifier other'
          \<and> bytes_eq (LockedTransferSignedState.token self) (LockedTransferSignedState.token other')
          \<and> BalanceProofSignedState_eq (LockedTransferSignedState.balance_proof self)
                (VBalanceProofSignedState (LockedTransferSignedState.balance_proof other')
                   :: 'o pyval)
          \<and> HashTimeLockState_eq (LockedTransferSignedState.lock self)
                (VHashTimeLockState (LockedTransferSignedState.lock other') :: 'o pyval)
          \<and> bytes_eq (LockedTransferSignedState.initiator self)
                (LockedTransferSignedState.initiator other')
          \<and> bytes_eq (LockedTransferSignedState.target self)
                (LockedTransferSignedState.target other')
      | _ \<Rightarrow> False)"

definition LockedTransferSignedState_ne :: "LockedTransferSignedState \<Rightarrow> 'o pyval \<Rightarrow> bool" where
  "LockedTransferSignedState_ne self other = (\<not> LockedTransferSignedState_eq self other)"

definition TransferDescriptionWithSecretState_eq ::
  "TransferDescriptionWithSecretState \<Rightarrow> 'o pyval \<Rightarrow> bool" where
  "TransferDescriptionWithSecretState_eq self other =
     (case other of
        VTransferDescriptionWithSecretState other' \<Rightarrow>
          TransferDescriptionWithSecretState.identifier self
            = TransferDescriptionWithSecretState.identifier other'
          \<and> TransferDescriptionWithSecretState.amount self
              = TransferDescriptionWithSecretState.amount other'
          \<and> bytes_eq (TransferDescriptionWithSecretState.registry self)
                (TransferDescriptionWithSecretState.registry other')
          \<and> bytes_eq (TransferDescriptionWithSecretState.token self)
                (TransferDescriptionWithSecretState.token other')
          \<and> bytes_eq (TransferDescriptionWithSecretState.initiator self)
                (TransferDescriptionWithSecretState.initiator other')
          \<and> bytes_eq (TransferDescriptionWithSecretState.target self)
                (TransferDescriptionWithSecretState.target other')
          \<and> bytes_eq (TransferDescriptionWithSecretState.secret self)
                (TransferDescriptionWithSecretState.secret other')
          \<and> bytes_eq (TransferDescriptionWithSecretState.secrethash self)
                (TransferDescriptionWithSecretState.secrethash other')
      | _ \<Rightarrow> False)"

definition TransferDescriptionWithSecretState_ne ::
  "TransferDescriptionWithSecretState \<Rightarrow> 'o pyval \<Rightarrow> bool" where
  "TransferDescriptionWithSecretState_ne self other =
     (\<not> TransferDescriptionWithSecretState_eq self other)"

definition InitiatorTransferState_eq :: "'o InitiatorTransferState \<Rightarrow> 'o pyval \<Rightarrow> bool" where
  "InitiatorTransferState_eq self other =
     (case other of
        VInitiatorTransferState other' \<Rightarrow>
          TransferDescriptionWithSecretState_eq (InitiatorTransferState.transfer_description self)
            (VTransferDescriptionWithSecretState (InitiatorTransferState.transfer_description other')
               :: 'o pyval)
          \<and> bytes_eq (InitiatorTransferState.channel_identifier self)
                (InitiatorTransferState.channel_identifier other')
          \<and> option_eq (\<lambda>a b. LockedTransferUnsignedState_eq a
                                (VLockedTransferUnsignedState b :: 'o pyval))
                (InitiatorTransferState.transfer self) (InitiatorTransferState.transfer other')
          \<and> option_eq (=) (InitiatorTransferState.secretrequest self)
                (InitiatorTransferState.secretrequest other')
          \<and> option_eq (=) (InitiatorTransferState.revealsecret self)
                (InitiatorTransferState.revealsecret other')
      | _ \<Rightarrow> False)"

definition InitiatorTransferState_ne :: "'o InitiatorTransferState \<Rightarrow> 'o pyval \<Rightarrow> bool" where
  "InitiatorTransferState_ne self other = (\<not> InitiatorTransferState_eq self other)"

definition MediationPairState_eq :: "MediationPairState \<Rightarrow> 'o pyval \<Rightarrow> bool" where
  "MediationPairState_eq self other =
     (case other of
        VMediationPairState other' \<Rightarrow>
          bytes_eq (MediationPairState.payee_address self) (MediationPairState.payee_address other')
          \<and> LockedTransferUnsignedState_eq (MediationPairState.payee_transfer self)
                (VLockedTransferUnsignedState (MediationPairState.payee_transfer other')
                   :: 'o pyval)
          \<and> MediationPairState.payee_state self = MediationPairState.payee_state other'
          \<and> LockedTransferSignedState_eq (MediationPairState.payer_transfer self)
                (VLockedTransferSignedState (MediationPairState.payer_transfer other')
                   :: 'o pyval)
          \<and> MediationPairState.payer_state self = MediationPairState.payer_state other'
      | _ \<Rightarrow> False)"

definition MediationPairState_ne :: "MediationPairState \<Rightarrow> 'o pyval \<Rightarrow> bool" where
  "MediationPairState_ne self other = (\<not> MediationPairState_eq self other)"

definition MediatorTransferState_eq :: "MediatorTransferState \<Rightarrow> 'o pyval \<Rightarrow> bool" where
  "MediatorTransferState_eq self other =
     (case other of
        VMediatorTransferState other' \<Rightarrow>
          bytes_eq (MediatorTransferState.secrethash self) (MediatorTransferState.secrethash other')
          \<and> option_eq bytes_eq (MediatorTransferState.secret self)
                (MediatorTransferState.secret other')
          \<and> list_all2 (\<lambda>a b. MediationPairState_eq a (VMediationPairState b :: 'o pyval))
                (MediatorTransferState.transfers_pair self)
                (MediatorTransferState.transfers_pair other')
      | _ \<Rightarrow> False)"

definition MediatorTransferState_ne :: "MediatorTransferState \<Rightarrow> 'o pyval \<Rightarrow> bool" where
  "MediatorTransferState_ne self other = (\<not> MediatorTransferState_eq self other)"

text \<open>
  \<^verbatim>\<open>TargetTransferState.__eq__\<close> compares \<^verbatim>\<open>route\<close> with the equality of
  \<^verbatim>\<open>RouteState\<close>, a class whose source is absent; the specification says all state
  is compared structurally, so it is the equality of \<open>'o\<close>.
\<close>

definition TargetTransferState_eq :: "'o TargetTransferState \<Rightarrow> 'o pyval \<Rightarrow> bool" where
  "TargetTransferState_eq self other =
     (case other of
        VTargetTransferState other' \<Rightarrow>
          TargetTransferState.route self = TargetTransferState.route other'
          \<and> LockedTransferSignedState_eq (TargetTransferState.transfer self)
                (VLockedTransferSignedState (TargetTransferState.transfer other') :: 'o pyval)
          \<and> option_eq bytes_eq (TargetTransferState.secret self)
                (TargetTransferState.secret other')
          \<and> TargetTransferState.state self = TargetTransferState.state other'
      | _ \<Rightarrow> False)"

definition TargetTransferState_ne :: "'o TargetTransferState \<Rightarrow> 'o pyval \<Rightarrow> bool" where
  "TargetTransferState_ne self other = (\<not> TargetTransferState_eq self other)"

section \<open>The target machine\<close>

text \<open>
  The state module declares \<^verbatim>\<open>TargetTransferState\<close> and its \<^verbatim>\<open>valid_states\<close>; the
  transition function of the target role (\<^verbatim>\<open>raiden/transfer/mediated_transfer/target.py\<close>)
  is not among the files. The specification gives the machine: the four states and
  what each event does.
\<close>

text \<open>
  Modelled from the spec: the events that reach the target machine after its
  creation: a revealed secret, a balance proof that unlocks the lock, and a new
  block.
\<close>

datatype target_event =
    ReceiveSecretReveal pybytes
  | ReceiveBalanceProof
  | Block int

text \<open>
  Modelled from the spec: the side effects the target machine returns:
  \<^verbatim>\<open>SendSecretRequest(identifier, amount, secrethash)\<close>, \<^verbatim>\<open>SendRevealSecret\<close> to the
  payer, and the request of on-chain settlement.
\<close>

datatype target_effect =
    SendSecretRequest int int pybytes
  | SendRevealSecret pybytes
  | RequestSettlement

text \<open>
  Modelled from the spec: on receipt of a \<^verbatim>\<open>LockedTransfer\<close> whose \<^verbatim>\<open>target == self\<close>
  the machine is created in state \<^verbatim>\<open>secret_request\<close> (by the constructor of the
  state module) and emits \<^verbatim>\<open>SendSecretRequest(identifier, amount, secrethash)\<close>. A
  transfer for another target creates nothing.
\<close>

definition target_receive_transfer ::
  "pybytes \<Rightarrow> 'o \<Rightarrow> LockedTransferSignedState
     \<Rightarrow> ('o TargetTransferState \<times> target_effect list) option" where
  "target_receive_transfer self route' transfer' =
     (if bytes_eq (LockedTransferSignedState.target transfer') self
      then Some (TargetTransferState_init route' transfer',
                 [SendSecretRequest
                    (LockedTransferSignedState.identifier transfer')
                    (HashTimeLockState.amount (LockedTransferSignedState.lock transfer'))
                    (HashTimeLockState.secrethash (LockedTransferSignedState.lock transfer'))])
      else None)"

text \<open>
  Modelled from the spec: the transitions of the target machine.
  \<^item> \<^verbatim>\<open>SecretReveal(secret)\<close> with \<^verbatim>\<open>keccak256(secret) == secrethash\<close>: store the secret,
    go to \<^verbatim>\<open>reveal_secret\<close>, emit \<^verbatim>\<open>SendRevealSecret\<close>; any other secret changes
    nothing.
  \<^item> A balance proof unlocking the lock: complete, the machine ends (\<open>None\<close>) and
    makes no further transition.
  \<^item> \<^verbatim>\<open>Block(n)\<close> with \<^verbatim>\<open>n >= lock.expiration\<close>: go to \<^verbatim>\<open>expired\<close>.
  \<^item> \<^verbatim>\<open>Block(n)\<close> with \<^verbatim>\<open>n >= lock.expiration - reveal_timeout\<close> otherwise: go to
    \<^verbatim>\<open>waiting_close\<close> and request on-chain settlement.
  \<^item> An earlier block changes nothing.
  The hash function and \<^verbatim>\<open>reveal_timeout\<close> (external configuration) are parameters.
\<close>

definition target_transition ::
  "(pybytes \<Rightarrow> pybytes) \<Rightarrow> int \<Rightarrow> 'o TargetTransferState \<Rightarrow> target_event
     \<Rightarrow> 'o TargetTransferState option \<times> target_effect list" where
  "target_transition keccak256 reveal_timeout st event =
     (let the_lock = LockedTransferSignedState.lock (TargetTransferState.transfer st) in
      case event of
        ReceiveSecretReveal revealed \<Rightarrow>
          if bytes_eq (keccak256 revealed) (HashTimeLockState.secrethash the_lock)
          then (Some (st\<lparr>TargetTransferState.secret := Some revealed,
                           TargetTransferState.state := ''reveal_secret''\<rparr>),
                [SendRevealSecret revealed])
          else (Some st, [])
      | ReceiveBalanceProof \<Rightarrow> (None, [])
      | Block n \<Rightarrow>
          if HashTimeLockState.expiration the_lock \<le> n
          then (Some (st\<lparr>TargetTransferState.state := ''expired''\<rparr>), [])
          else if HashTimeLockState.expiration the_lock - reveal_timeout \<le> n
          then (Some (st\<lparr>TargetTransferState.state := ''waiting_close''\<rparr>), [RequestSettlement])
          else (Some st, []))"

text \<open>
  Modelled from the spec: the target states a node can be in: the state created on
  receipt of a transfer addressed to the node, and every state a transition leads
  to from such a state.
\<close>

inductive target_reachable ::
  "(pybytes \<Rightarrow> pybytes) \<Rightarrow> int \<Rightarrow> pybytes \<Rightarrow> 'o TargetTransferState \<Rightarrow> bool"
  for keccak256 :: "pybytes \<Rightarrow> pybytes" and reveal_timeout :: int and self :: pybytes where
  created:
    "target_receive_transfer self route' transfer' = Some (st, effects)
     \<Longrightarrow> target_reachable keccak256 reveal_timeout self st"
| stepped:
    "target_reachable keccak256 reveal_timeout self st
     \<Longrightarrow> target_transition keccak256 reveal_timeout st event = (Some st', effects)
     \<Longrightarrow> target_reachable keccak256 reveal_timeout self st'"

section \<open>The canonical mapping representation of messages\<close>

text \<open>
  The message classes \<^verbatim>\<open>DirectTransfer\<close>, \<^verbatim>\<open>LockedTransfer\<close> and \<^verbatim>\<open>RefundTransfer\<close>
  of \<^verbatim>\<open>raiden.messages\<close> and their \<^verbatim>\<open>to_dict\<close> and \<^verbatim>\<open>from_dict\<close> are exercised by
  \<^verbatim>\<open>tests/unit/test_dict_encoding.py\<close>; their source is absent. This section follows
  the specification: a message value is its wire fields, unsigned integers of the
  stated width and byte strings; \<^verbatim>\<open>to_mapping\<close> gives a string-keyed mapping in which
  a numeric field is a decimal string and a binary field is hexadecimal with the
  prefix \<^verbatim>\<open>0x\<close>; \<^verbatim>\<open>from_mapping\<close> reads the mapping back and fails (\<open>None\<close>) on
  a missing key, an unreadable string or a number that does not fit its width.
\<close>

text \<open>
  Modelled from the spec: the decimal digit of a number below ten.
\<close>

definition digit_char :: "nat \<Rightarrow> char" where
  "digit_char d = char_of (48 + d)"

text \<open>
  Modelled from the spec: the value of a decimal digit, \<open>None\<close> for any other
  character.
\<close>

definition digit_value :: "char \<Rightarrow> nat option" where
  "digit_value c =
     (let n = (of_char c :: nat) in if 48 \<le> n \<and> n \<le> 57 then Some (n - 48) else None)"

text \<open>
  Modelled from the spec: a numeric field is encoded as its decimal string, most
  significant digit first, without leading zeros.
\<close>

fun decimal :: "nat \<Rightarrow> string" where
  "decimal n = (if n < 10 then [digit_char n] else decimal (n div 10) @ [digit_char (n mod 10)])"

declare decimal.simps [simp del]

text \<open>
  Modelled from the spec: reading a decimal string, digit by digit from the left.
\<close>

fun parse_digits :: "nat \<Rightarrow> string \<Rightarrow> nat option" where
  "parse_digits acc [] = Some acc"
| "parse_digits acc (c # cs) =
     (case digit_value c of None \<Rightarrow> None | Some d \<Rightarrow> parse_digits (10 * acc + d) cs)"

text \<open>
  Modelled from the spec: a decimal string is a non-empty string of digits.
\<close>

definition parse_decimal :: "string \<Rightarrow> nat option" where
  "parse_decimal s = (if s = [] then None else parse_digits 0 s)"

text \<open>
  Modelled from the spec: the hexadecimal digit (lower case) of a number below
  sixteen.
\<close>

definition hex_char :: "nat \<Rightarrow> char" where
  "hex_char d = (if d < 10 then char_of (48 + d) else char_of (87 + d))"

text \<open>
  Modelled from the spec: the value of a hexadecimal digit, \<open>None\<close> for any other
  character.
\<close>

definition hex_value :: "char \<Rightarrow> nat option" where
  "hex_value c =
     (let n = (of_char c :: nat) in
      if 48 \<le> n \<and> n \<le> 57 then Some (n - 48)
      else if 97 \<le> n \<and> n \<le> 102 then Some (n - 87)
      else None)"

text \<open>
  Modelled from the spec: a byte is two hexadecimal digits, the high one first.
\<close>

definition hex_byte :: "8 word \<Rightarrow> string" where
  "hex_byte b = [hex_char (unat b div 16), hex_char (unat b mod 16)]"

text \<open>
  Modelled from the spec: a binary field is encoded as hex with the prefix
  \<^verbatim>\<open>0x\<close>.
\<close>

definition hex :: "8 word list \<Rightarrow> string" where
  "hex bs = ''0x'' @ concat (map hex_byte bs)"

text \<open>
  Modelled from the spec: reading pairs of hexadecimal digits; an odd number of
  digits or another character fails.
\<close>

fun parse_hex_digits :: "string \<Rightarrow> 8 word list option" where
  "parse_hex_digits [] = Some []"
| "parse_hex_digits [c] = None"
| "parse_hex_digits (a # b # cs) =
     (case hex_value a of
        None \<Rightarrow> None
      | Some h \<Rightarrow>
          (case hex_value b of
             None \<Rightarrow> None
           | Some l \<Rightarrow> map_option ((#) (of_nat (16 * h + l))) (parse_hex_digits cs)))"

text \<open>
  Modelled from the spec: a hex string starts with \<^verbatim>\<open>0x\<close>.
\<close>

definition parse_hex :: "string \<Rightarrow> 8 word list option" where
  "parse_hex s =
     (case s of
        a # b # cs \<Rightarrow> if a = CHR ''0'' \<and> b = CHR ''x'' then parse_hex_digits cs else None
      | _ \<Rightarrow> None)"

text \<open>
  Modelled from the spec: reading a numeric field of a mapping into an unsigned
  integer of its width; a number that does not fit is refused.
\<close>

definition numeric_field :: "(string \<times> string) list \<Rightarrow> string \<Rightarrow> 'a::len word option" where
  "numeric_field m key =
     (case map_of m key of
        None \<Rightarrow> None
      | Some s \<Rightarrow>
          (case parse_decimal s of
             None \<Rightarrow> None
           | Some n \<Rightarrow> if n < 2 ^ LENGTH('a) then Some (of_nat n) else None))"

text \<open>
  Modelled from the spec: reading a binary field of a mapping.
\<close>

definition binary_field :: "(string \<times> string) list \<Rightarrow> string \<Rightarrow> 8 word list option" where
  "binary_field m key = (case map_of m key of None \<Rightarrow> None | Some s \<Rightarrow> parse_hex s)"

text \<open>
  Modelled from the spec: \<^verbatim>\<open>UINT64_MAX\<close> and \<^verbatim>\<open>UINT256_MAX\<close> of \<^verbatim>\<open>raiden.constants\<close>
  (source absent), the largest unsigned integers of 64 and of 256 bits.
\<close>

definition UINT64_MAX :: "64 word" where
  "UINT64_MAX = - 1"

definition UINT256_MAX :: "256 word" where
  "UINT256_MAX = - 1"

text \<open>
  Modelled from the spec: the fields of a \<^verbatim>\<open>LockedTransfer\<close> message, from the wire
  format of the specification (the command id and the padding are constants of the
  layout): \<^verbatim>\<open>nonce:8 identifier:8 expiration:32 token:20 channel:20 recipient:20
  target:20 initiator:20 locksroot:32 secrethash:32 transferred_amount:32 amount:32
  fee:32 signature:65\<close>. Integers are unsigned of the stated width.
\<close>

record LockedTransfer_fields =
  nonce :: "64 word"
  "identifier" :: "64 word"
  expiration :: "256 word"
  token :: "8 word list"
  channel :: "8 word list"
  recipient :: "8 word list"
  target :: "8 word list"
  initiator :: "8 word list"
  locksroot :: "8 word list"
  secrethash :: "8 word list"
  transferred_amount :: "256 word"
  amount :: "256 word"
  fee :: "256 word"
  signature :: "8 word list"

text \<open>
  Modelled from the spec: \<^verbatim>\<open>RefundTransfer\<close> shares the fields of \<^verbatim>\<open>LockedTransfer\<close>.
\<close>

type_synonym RefundTransfer_fields = LockedTransfer_fields

text \<open>
  Modelled from the spec: \<^verbatim>\<open>DirectTransfer\<close> shares a subset of the fields of
  \<^verbatim>\<open>LockedTransfer\<close>: those of a transfer without a lock.
\<close>

record DirectTransfer_fields =
  nonce :: "64 word"
  "identifier" :: "64 word"
  token :: "8 word list"
  channel :: "8 word list"
  recipient :: "8 word list"
  locksroot :: "8 word list"
  transferred_amount :: "256 word"
  signature :: "8 word list"

text \<open>
  Modelled from the spec: \<^verbatim>\<open>to_mapping\<close> of a \<^verbatim>\<open>DirectTransfer\<close>.
\<close>

definition DirectTransfer_to_mapping :: "DirectTransfer_fields \<Rightarrow> (string \<times> string) list" where
  "DirectTransfer_to_mapping x =
     [(''nonce'', decimal (unat (DirectTransfer_fields.nonce x))),
      (''identifier'', decimal (unat (DirectTransfer_fields.identifier x))),
      (''token'', hex (DirectTransfer_fields.token x)),
      (''channel'', hex (DirectTransfer_fields.channel x)),
      (''recipient'', hex (DirectTransfer_fields.recipient x)),
      (''locksroot'', hex (DirectTransfer_fields.locksroot x)),
      (''transferred_amount'', decimal (unat (DirectTransfer_fields.transferred_amount x))),
      (''signature'', hex (DirectTransfer_fields.signature x))]"

text \<open>
  Modelled from the spec: \<^verbatim>\<open>from_mapping\<close> of a \<^verbatim>\<open>DirectTransfer\<close>.
\<close>

definition DirectTransfer_from_mapping ::
  "(string \<times> string) list \<Rightarrow> DirectTransfer_fields option" where
  "DirectTransfer_from_mapping m =
     do {
       n \<leftarrow> numeric_field m ''nonce'';
       i \<leftarrow> numeric_field m ''identifier'';
       t \<leftarrow> binary_field m ''token'';
       c \<leftarrow> binary_field m ''channel'';
       r \<leftarrow> binary_field m ''recipient'';
       l \<leftarrow> binary_field m ''locksroot'';
       a \<leftarrow> numeric_field m ''transferred_amount'';
       s \<leftarrow> binary_field m ''signature'';
       Some \<lparr>DirectTransfer_fields.nonce = n,
             DirectTransfer_fields.identifier = i,
             DirectTransfer_fields.token = t,
             DirectTransfer_fields.channel = c,
             DirectTransfer_fields.recipient = r,
             DirectTransfer_fields.locksroot = l,
             DirectTransfer_fields.transferred_amount = a,
             DirectTransfer_fields.signature = s\<rparr>
     }"

text \<open>
  Modelled from the spec: \<^verbatim>\<open>to_mapping\<close> of a \<^verbatim>\<open>LockedTransfer\<close>.
\<close>

definition LockedTransfer_to_mapping :: "LockedTransfer_fields \<Rightarrow> (string \<times> string) list" where
  "LockedTransfer_to_mapping x =
     [(''nonce'', decimal (unat (LockedTransfer_fields.nonce x))),
      (''identifier'', decimal (unat (LockedTransfer_fields.identifier x))),
      (''expiration'', decimal (unat (LockedTransfer_fields.expiration x))),
      (''token'', hex (LockedTransfer_fields.token x)),
      (''channel'', hex (LockedTransfer_fields.channel x)),
      (''recipient'', hex (LockedTransfer_fields.recipient x)),
      (''target'', hex (LockedTransfer_fields.target x)),
      (''initiator'', hex (LockedTransfer_fields.initiator x)),
      (''locksroot'', hex (LockedTransfer_fields.locksroot x)),
      (''secrethash'', hex (LockedTransfer_fields.secrethash x)),
      (''transferred_amount'', decimal (unat (LockedTransfer_fields.transferred_amount x))),
      (''amount'', decimal (unat (LockedTransfer_fields.amount x))),
      (''fee'', decimal (unat (LockedTransfer_fields.fee x))),
      (''signature'', hex (LockedTransfer_fields.signature x))]"

text \<open>
  Modelled from the spec: \<^verbatim>\<open>from_mapping\<close> of a \<^verbatim>\<open>LockedTransfer\<close>.
\<close>

definition LockedTransfer_from_mapping ::
  "(string \<times> string) list \<Rightarrow> LockedTransfer_fields option" where
  "LockedTransfer_from_mapping m =
     do {
       n \<leftarrow> numeric_field m ''nonce'';
       i \<leftarrow> numeric_field m ''identifier'';
       e \<leftarrow> numeric_field m ''expiration'';
       t \<leftarrow> binary_field m ''token'';
       c \<leftarrow> binary_field m ''channel'';
       r \<leftarrow> binary_field m ''recipient'';
       g \<leftarrow> binary_field m ''target'';
       j \<leftarrow> binary_field m ''initiator'';
       l \<leftarrow> binary_field m ''locksroot'';
       h \<leftarrow> binary_field m ''secrethash'';
       a \<leftarrow> numeric_field m ''transferred_amount'';
       b \<leftarrow> numeric_field m ''amount'';
       f \<leftarrow> numeric_field m ''fee'';
       s \<leftarrow> binary_field m ''signature'';
       Some \<lparr>LockedTransfer_fields.nonce = n,
             LockedTransfer_fields.identifier = i,
             LockedTransfer_fields.expiration = e,
             LockedTransfer_fields.token = t,
             LockedTransfer_fields.channel = c,
             LockedTransfer_fields.recipient = r,
             LockedTransfer_fields.target = g,
             LockedTransfer_fields.initiator = j,
             LockedTransfer_fields.locksroot = l,
             LockedTransfer_fields.secrethash = h,
             LockedTransfer_fields.transferred_amount = a,
             LockedTransfer_fields.amount = b,
             LockedTransfer_fields.fee = f,
             LockedTransfer_fields.signature = s\<rparr>
     }"

text \<open>
  Modelled from the spec: \<^verbatim>\<open>to_mapping\<close> of a \<^verbatim>\<open>RefundTransfer\<close>, the mapping of
  its \<^verbatim>\<open>LockedTransfer\<close> fields.
\<close>

definition RefundTransfer_to_mapping :: "RefundTransfer_fields \<Rightarrow> (string \<times> string) list" where
  "RefundTransfer_to_mapping x = LockedTransfer_to_mapping x"

text \<open>
  Modelled from the spec: \<^verbatim>\<open>from_mapping\<close> of a \<^verbatim>\<open>RefundTransfer\<close>.
\<close>

definition RefundTransfer_from_mapping ::
  "(string \<times> string) list \<Rightarrow> RefundTransfer_fields option" where
  "RefundTransfer_from_mapping m = LockedTransfer_from_mapping m"

section \<open>Sample values\<close>

text \<open>
  Concrete objects for the closed instances below. \<open>example_EMPTY_MERKLE_ROOT\<close> stands
  for the module constant; \<open>example_decoded_empty_root\<close> is another object with the
  same 32 bytes, as a locksroot read from a received message is.
\<close>

definition example_EMPTY_MERKLE_ROOT :: pybytes where
  "example_EMPTY_MERKLE_ROOT = \<lparr>oid = 0, content = replicate 32 0\<rparr>"

definition example_decoded_empty_root :: pybytes where
  "example_decoded_empty_root = \<lparr>oid = 1, content = replicate 32 0\<rparr>"

definition example_locksroot :: pybytes where
  "example_locksroot = \<lparr>oid = 2, content = replicate 32 7\<rparr>"

definition example_hash :: pybytes where
  "example_hash = \<lparr>oid = 3, content = replicate 32 9\<rparr>"

definition example_address :: "nat \<Rightarrow> pybytes" where
  "example_address n = \<lparr>oid = 10 + n, content = replicate 20 (of_nat n)\<rparr>"

definition example_signature :: pybytes where
  "example_signature = \<lparr>oid = 4, content = replicate 65 1\<rparr>"

definition example_signed_proof :: "pybytes \<Rightarrow> BalanceProofSignedState" where
  "example_signed_proof root =
     BalanceProofSignedState_init 1 0 root (example_address 1) example_hash
       example_signature (example_address 2)"

definition example_unsigned_proof :: "pybytes \<Rightarrow> BalanceProofUnsignedState" where
  "example_unsigned_proof root =
     \<lparr>BalanceProofUnsignedState.nonce = 1,
      BalanceProofUnsignedState.transferred_amount = 0,
      BalanceProofUnsignedState.locksroot = root,
      BalanceProofUnsignedState.channel_identifier = example_address 3,
      BalanceProofUnsignedState.message_hash = example_hash\<rparr>"

definition example_payer :: "pybytes \<Rightarrow> int \<Rightarrow> int \<Rightarrow> LockedTransferSignedState" where
  "example_payer root amount' expiration' =
     \<lparr>LockedTransferSignedState.identifier = 1,
      LockedTransferSignedState.token = example_address 0,
      LockedTransferSignedState.balance_proof = example_signed_proof root,
      LockedTransferSignedState.lock = HashTimeLockState_init amount' expiration' example_hash,
      LockedTransferSignedState.initiator = example_address 2,
      LockedTransferSignedState.target = example_address 5\<rparr>"

definition example_payee :: "pybytes \<Rightarrow> int \<Rightarrow> int \<Rightarrow> LockedTransferUnsignedState" where
  "example_payee root amount' expiration' =
     \<lparr>LockedTransferUnsignedState.identifier = 1,
      LockedTransferUnsignedState.token = example_address 0,
      LockedTransferUnsignedState.balance_proof = example_unsigned_proof root,
      LockedTransferUnsignedState.lock = HashTimeLockState_init amount' expiration' example_hash,
      LockedTransferUnsignedState.initiator = example_address 2,
      LockedTransferUnsignedState.target = example_address 5\<rparr>"

definition example_message :: "pybytes \<Rightarrow> LockedTransfer" where
  "example_message root =
     \<lparr>LockedTransfer.nonce = 1,
      LockedTransfer.transferred_amount = 0,
      LockedTransfer.locksroot = root,
      LockedTransfer.channel = example_address 1,
      LockedTransfer.message_hash = example_hash,
      LockedTransfer.signature = example_signature,
      LockedTransfer.sender = example_address 2,
      LockedTransfer.lock = \<lparr>Lock.amount = 100, Lock.expiration = 50, Lock.secrethash = example_hash\<rparr>,
      LockedTransfer.identifier = 1,
      LockedTransfer.token = example_address 0,
      LockedTransfer.initiator = example_address 2,
      LockedTransfer.target = example_address 5\<rparr>"

section \<open>Properties of the constructors\<close>

subsection \<open>What the guards of the constructors decide\<close>

lemma LockedTransferSignedState_init_identical_root:
  "bytes_is (BalanceProofSignedState.locksroot proof) EMPTY_MERKLE_ROOT \<Longrightarrow>
   LockedTransferSignedState_init EMPTY_MERKLE_ROOT identifier' token'
     (VBalanceProofSignedState proof) (VHashTimeLockState the_lock) initiator' target'
   = Inl (ValueError ''balance_proof must not be empty'')"
  by (simp add: LockedTransferSignedState_init_def)

lemma LockedTransferSignedState_init_other_root:
  "\<not> bytes_is (BalanceProofSignedState.locksroot proof) EMPTY_MERKLE_ROOT \<Longrightarrow>
   LockedTransferSignedState_init EMPTY_MERKLE_ROOT identifier' token'
     (VBalanceProofSignedState proof) (VHashTimeLockState the_lock) initiator' target'
   = Inr \<lparr>LockedTransferSignedState.identifier = identifier',
          LockedTransferSignedState.token = token',
          LockedTransferSignedState.balance_proof = proof,
          LockedTransferSignedState.lock = the_lock,
          LockedTransferSignedState.initiator = initiator',
          LockedTransferSignedState.target = target'\<rparr>"
  by (simp add: LockedTransferSignedState_init_def)

lemma LockedTransferUnsignedState_init_identical_root:
  "bytes_is (BalanceProofUnsignedState.locksroot proof) EMPTY_MERKLE_ROOT \<Longrightarrow>
   LockedTransferUnsignedState_init EMPTY_MERKLE_ROOT identifier' token'
     (VBalanceProofUnsignedState proof) (VHashTimeLockState the_lock) initiator' target'
   = Inl (ValueError ''balance_proof must not be empty'')"
  by (simp add: LockedTransferUnsignedState_init_def)

lemma LockedTransferUnsignedState_init_other_root:
  "\<not> bytes_is (BalanceProofUnsignedState.locksroot proof) EMPTY_MERKLE_ROOT \<Longrightarrow>
   LockedTransferUnsignedState_init EMPTY_MERKLE_ROOT identifier' token'
     (VBalanceProofUnsignedState proof) (VHashTimeLockState the_lock) initiator' target'
   = Inr \<lparr>LockedTransferUnsignedState.identifier = identifier',
          LockedTransferUnsignedState.token = token',
          LockedTransferUnsignedState.balance_proof = proof,
          LockedTransferUnsignedState.lock = the_lock,
          LockedTransferUnsignedState.initiator = initiator',
          LockedTransferUnsignedState.target = target'\<rparr>"
  by (simp add: LockedTransferUnsignedState_init_def)

lemma LockedTransferSignedState_init_Inr:
  assumes "LockedTransferSignedState_init EMPTY_MERKLE_ROOT identifier' token' balance_proof' lock'
             initiator' target' = Inr result"
  shows "\<not> bytes_is (BalanceProofSignedState.locksroot (LockedTransferSignedState.balance_proof result))
             EMPTY_MERKLE_ROOT"
    and "balance_proof' = VBalanceProofSignedState (LockedTransferSignedState.balance_proof result)"
    and "lock' = VHashTimeLockState (LockedTransferSignedState.lock result)"
  using assms
  by (auto simp: LockedTransferSignedState_init_def split: pyval.splits if_splits)

lemma LockedTransferUnsignedState_init_Inr:
  assumes "LockedTransferUnsignedState_init EMPTY_MERKLE_ROOT identifier' token' balance_proof' lock'
             initiator' target' = Inr result"
  shows "\<not> bytes_is (BalanceProofUnsignedState.locksroot (LockedTransferUnsignedState.balance_proof result))
             EMPTY_MERKLE_ROOT"
    and "balance_proof' = VBalanceProofUnsignedState (LockedTransferUnsignedState.balance_proof result)"
    and "lock' = VHashTimeLockState (LockedTransferUnsignedState.lock result)"
  using assms
  by (auto simp: LockedTransferUnsignedState_init_def split: pyval.splits if_splits)

text \<open>
  The pair constructor tests the classes of its arguments and nothing else: it
  compares neither the amounts nor the expirations of the two locks, and stores
  the transfers as they are given.
\<close>

lemma MediationPairState_init_well_shaped:
  "MediationPairState_init (VLockedTransferSignedState payer) (VBytes address)
     (VLockedTransferUnsignedState payee)
   = Inr \<lparr>MediationPairState.payee_address = address,
          MediationPairState.payee_transfer = payee,
          MediationPairState.payee_state = ''payee_pending'',
          MediationPairState.payer_transfer = payer,
          MediationPairState.payer_state = ''payer_pending''\<rparr>"
  by (simp add: MediationPairState_init_def T_Address_instance_def)

lemma MediationPairState_init_Inr:
  assumes "MediationPairState_init payer_transfer' payee_address' payee_transfer' = Inr pair"
  shows "payer_transfer' = VLockedTransferSignedState (MediationPairState.payer_transfer pair)"
    and "payee_address' = VBytes (MediationPairState.payee_address pair)"
    and "payee_transfer' = VLockedTransferUnsignedState (MediationPairState.payee_transfer pair)"
    and "MediationPairState.payer_state pair = ''payer_pending''"
    and "MediationPairState.payee_state pair = ''payee_pending''"
  using assms
  by (auto simp: MediationPairState_init_def T_Address_instance_def
           split: pyval.splits option.splits)

lemma MediationPairState_init_ill_shaped:
  assumes "(\<forall>payer. payer_transfer' \<noteq> VLockedTransferSignedState payer)
           \<or> T_Address_instance payee_address' = None
           \<or> (\<forall>payee. payee_transfer' \<noteq> VLockedTransferUnsignedState payee)"
  shows "\<exists>msg. MediationPairState_init payer_transfer' payee_address' payee_transfer'
           = Inl (ValueError msg)"
  using assms
  by (auto simp: MediationPairState_init_def split: pyval.splits option.splits)

lemma lockedtransfersigned_from_message_other_root:
  "\<not> bytes_is (LockedTransfer.locksroot message) EMPTY_MERKLE_ROOT \<Longrightarrow>
   lockedtransfersigned_from_message EMPTY_MERKLE_ROOT message
   = Inr \<lparr>LockedTransferSignedState.identifier = LockedTransfer.identifier message,
          LockedTransferSignedState.token = LockedTransfer.token message,
          LockedTransferSignedState.balance_proof =
            \<lparr>BalanceProofSignedState.nonce = LockedTransfer.nonce message,
             BalanceProofSignedState.transferred_amount = LockedTransfer.transferred_amount message,
             BalanceProofSignedState.locksroot = LockedTransfer.locksroot message,
             BalanceProofSignedState.channel_identifier = LockedTransfer.channel message,
             BalanceProofSignedState.message_hash = LockedTransfer.message_hash message,
             BalanceProofSignedState.signature = LockedTransfer.signature message,
             BalanceProofSignedState.sender = LockedTransfer.sender message\<rparr>,
          LockedTransferSignedState.lock =
            \<lparr>HashTimeLockState.amount = Lock.amount (LockedTransfer.lock message),
             HashTimeLockState.expiration = Lock.expiration (LockedTransfer.lock message),
             HashTimeLockState.secrethash = Lock.secrethash (LockedTransfer.lock message)\<rparr>,
          LockedTransferSignedState.initiator = LockedTransfer.initiator message,
          LockedTransferSignedState.target = LockedTransfer.target message\<rparr>"
  by (simp add: lockedtransfersigned_from_message_def LockedTransferSignedState_init_def
        BalanceProofSignedState_init_def HashTimeLockState_init_def)

lemma lockedtransfersigned_from_message_identical_root:
  "bytes_is (LockedTransfer.locksroot message) EMPTY_MERKLE_ROOT \<Longrightarrow>
   lockedtransfersigned_from_message EMPTY_MERKLE_ROOT message
   = Inl (ValueError ''balance_proof must not be empty'')"
  by (simp add: lockedtransfersigned_from_message_def LockedTransferSignedState_init_def
        BalanceProofSignedState_init_def HashTimeLockState_init_def)

subsection \<open>The claims about constructors\<close>

text \<open>
  C5. For every secret, the transfer description constructed with it has
  \<open>secrethash\<close> equal to the hash of the secret (\<^verbatim>\<open>sha3(secret)\<close>, the keccak256
  helper of the repository), and its identifier, amount, registry, token, initiator,
  target and secret are the constructor's arguments, unchanged.
\<close>

theorem TransferDescriptionWithSecretState_init_fields:
  "TransferDescriptionWithSecretState_init sha3 identifier' amount' registry' token' initiator' target' secret' =
     \<lparr>TransferDescriptionWithSecretState.identifier = identifier',
      TransferDescriptionWithSecretState.amount = amount',
      TransferDescriptionWithSecretState.registry = registry',
      TransferDescriptionWithSecretState.token = token',
      TransferDescriptionWithSecretState.initiator = initiator',
      TransferDescriptionWithSecretState.target = target',
      TransferDescriptionWithSecretState.secret = secret',
      TransferDescriptionWithSecretState.secrethash = sha3 secret'\<rparr>"
  by (simp add: TransferDescriptionWithSecretState_init_def)

text \<open>
  C6. Every \<^verbatim>\<open>TargetTransferState\<close> has its state in
  \<^verbatim>\<open>{secret_request, reveal_secret, waiting_close, expired}\<close>: this holds of every
  state of the target machine, the created one and every state reached from it by
  the transitions (a revealed secret, a new block). A freshly constructed
  \<^verbatim>\<open>TargetTransferState\<close>, which is what the receipt of a \<^verbatim>\<open>LockedTransfer\<close> addressed
  to this node creates, is in state \<^verbatim>\<open>secret_request\<close> with \<^verbatim>\<open>secret = None\<close>.
\<close>

theorem TargetTransferState_state_valid:
  "(target_reachable keccak256 reveal_timeout self st \<longrightarrow>
      TargetTransferState.state st \<in> set TargetTransferState_valid_states)
   \<and> (target_receive_transfer self route' transfer' = Some (created, effects) \<longrightarrow>
      created = TargetTransferState_init route' transfer')
   \<and> TargetTransferState.state (TargetTransferState_init route' transfer') = ''secret_request''
   \<and> TargetTransferState.secret (TargetTransferState_init route' transfer') = None"
proof (intro conjI impI)
  assume "target_reachable keccak256 reveal_timeout self st"
  then show "TargetTransferState.state st \<in> set TargetTransferState_valid_states"
  proof (induction rule: target_reachable.induct)
    case (created route' transfer' st effects)
    then show ?case
      by (auto simp: target_receive_transfer_def TargetTransferState_init_def
            TargetTransferState_valid_states_def split: if_splits)
  next
    case (stepped st event st' effects)
    from stepped.hyps(2) stepped.IH show ?case
      by (cases event)
        (auto simp: target_transition_def TargetTransferState_valid_states_def Let_def
              split: if_splits)
  qed
next
  assume "target_receive_transfer self route' transfer' = Some (created, effects)"
  then show "created = TargetTransferState_init route' transfer'"
    by (simp add: target_receive_transfer_def split: if_splits)
next
  show "TargetTransferState.state (TargetTransferState_init route' transfer') = ''secret_request''"
    by (simp add: TargetTransferState_init_def)
next
  show "TargetTransferState.secret (TargetTransferState_init route' transfer') = None"
    by (simp add: TargetTransferState_init_def)
qed

text \<open>
  An instance: the node \<open>example_address 5\<close> receives a transfer addressed to it
  (lock expiration 50), learns the secret, and at block 46 with a reveal timeout of
  5 waits for the close. The hash function of the instance is the identity.
\<close>

theorem TargetTransferState_state_valid_witness:
  "target_reachable (\<lambda>b. b) 5 (example_address 5)
     \<lparr>TargetTransferState.route = (),
      TargetTransferState.transfer = example_payer example_locksroot 100 50,
      TargetTransferState.secret = Some example_hash,
      TargetTransferState.state = ''waiting_close''\<rparr>
   \<and> TargetTransferState.state
       \<lparr>TargetTransferState.route = (),
        TargetTransferState.transfer = example_payer example_locksroot 100 50,
        TargetTransferState.secret = Some example_hash,
        TargetTransferState.state = ''waiting_close''\<rparr>
     \<in> set TargetTransferState_valid_states
   \<and> target_receive_transfer (example_address 5) () (example_payer example_locksroot 100 50)
     = Some (TargetTransferState_init () (example_payer example_locksroot 100 50),
             [SendSecretRequest 1 100 example_hash])"
proof -
  let ?transfer = "example_payer example_locksroot 100 50"
  let ?st0 = "TargetTransferState_init () ?transfer"
  let ?st1 = "\<lparr>TargetTransferState.route = (), TargetTransferState.transfer = ?transfer,
      TargetTransferState.secret = Some example_hash,
      TargetTransferState.state = ''reveal_secret''\<rparr>"
  let ?st2 = "\<lparr>TargetTransferState.route = (), TargetTransferState.transfer = ?transfer,
      TargetTransferState.secret = Some example_hash,
      TargetTransferState.state = ''waiting_close''\<rparr>"
  have c: "target_receive_transfer (example_address 5) () ?transfer
      = Some (?st0, [SendSecretRequest 1 100 example_hash])"
    by (simp add: target_receive_transfer_def example_payer_def bytes_eq_def
          HashTimeLockState_init_def)
  have r0: "target_reachable (\<lambda>b. b) 5 (example_address 5) ?st0"
    by (rule target_reachable.created [OF c])
  have t1: "target_transition (\<lambda>b. b) 5 ?st0 (ReceiveSecretReveal example_hash)
      = (Some ?st1, [SendRevealSecret example_hash])"
    by (simp add: target_transition_def TargetTransferState_init_def example_payer_def
          bytes_eq_def HashTimeLockState_init_def)
  have r1: "target_reachable (\<lambda>b. b) 5 (example_address 5) ?st1"
    by (rule target_reachable.stepped [OF r0 t1])
  have t2: "target_transition (\<lambda>b. b) 5 ?st1 (Block 46) = (Some ?st2, [RequestSettlement])"
    by (simp add: target_transition_def example_payer_def HashTimeLockState_init_def)
  have r2: "target_reachable (\<lambda>b. b) 5 (example_address 5) ?st2"
    by (rule target_reachable.stepped [OF r1 t2])
  have v: "TargetTransferState.state ?st2 \<in> set TargetTransferState_valid_states"
    by (rule TargetTransferState_state_valid [THEN conjunct1, rule_format, OF r2])
  from r2 v c show ?thesis by blast
qed

text \<open>
  C9. Freshly constructed role states have every progress field unset: a
  \<^verbatim>\<open>MediatorTransferState\<close> built from a secrethash has \<^verbatim>\<open>secret = None\<close> and an
  empty \<^verbatim>\<open>transfers_pair\<close>; an \<^verbatim>\<open>InitiatorTransferState\<close> built from a transfer
  description and a channel identifier is constructed (no error) with \<^verbatim>\<open>transfer\<close>,
  \<^verbatim>\<open>secretrequest\<close> and \<^verbatim>\<open>revealsecret\<close> all \<^verbatim>\<open>None\<close>.
\<close>

theorem fresh_role_states_unset:
  "MediatorTransferState.secret (MediatorTransferState_init secrethash') = None
   \<and> MediatorTransferState.transfers_pair (MediatorTransferState_init secrethash') = []
   \<and> MediatorTransferState.secrethash (MediatorTransferState_init secrethash') = secrethash'
   \<and> InitiatorTransferState_init (VTransferDescriptionWithSecretState description) channel_identifier'
       = Inr \<lparr>InitiatorTransferState.transfer_description = description,
              InitiatorTransferState.channel_identifier = channel_identifier',
              InitiatorTransferState.transfer = None,
              InitiatorTransferState.secretrequest = None,
              InitiatorTransferState.revealsecret = None\<rparr>"
  by (simp add: MediatorTransferState_init_def InitiatorTransferState_init_def)

text \<open>
  C8. Constructing a \<^verbatim>\<open>MediationPairState\<close> succeeds only when \<^verbatim>\<open>payer_transfer\<close> is
  a \<^verbatim>\<open>LockedTransferSignedState\<close>, \<^verbatim>\<open>payee_address\<close> is an address value and
  \<^verbatim>\<open>payee_transfer\<close> is a \<^verbatim>\<open>LockedTransferUnsignedState\<close>, and then the pair starts
  with \<^verbatim>\<open>payer_state = 'payer_pending'\<close> and \<^verbatim>\<open>payee_state = 'payee_pending'\<close>; for
  any argument outside these shapes the constructor raises \<^verbatim>\<open>ValueError\<close> and no
  pair is produced; for arguments of these shapes it does succeed.
\<close>

theorem MediationPairState_init_guards:
  "(MediationPairState_init payer_transfer' payee_address' payee_transfer' = Inr pair \<longrightarrow>
      (\<exists>payer. payer_transfer' = VLockedTransferSignedState payer)
      \<and> (\<exists>address. T_Address_instance payee_address' = Some address)
      \<and> (\<exists>payee. payee_transfer' = VLockedTransferUnsignedState payee)
      \<and> MediationPairState.payer_state pair = ''payer_pending''
      \<and> MediationPairState.payee_state pair = ''payee_pending'')
   \<and> ((\<forall>payer. payer_transfer' \<noteq> VLockedTransferSignedState payer)
        \<or> T_Address_instance payee_address' = None
        \<or> (\<forall>payee. payee_transfer' \<noteq> VLockedTransferUnsignedState payee) \<longrightarrow>
      (\<exists>msg. MediationPairState_init payer_transfer' payee_address' payee_transfer'
         = Inl (ValueError msg)))
   \<and> (\<exists>made. MediationPairState_init (VLockedTransferSignedState payer0) (VBytes address0)
         (VLockedTransferUnsignedState payee0) = Inr made)"
proof (intro conjI impI)
  assume made: "MediationPairState_init payer_transfer' payee_address' payee_transfer' = Inr pair"
  show "\<exists>payer. payer_transfer' = VLockedTransferSignedState payer"
    using MediationPairState_init_Inr(1) [OF made] by blast
  show "\<exists>address. T_Address_instance payee_address' = Some address"
    using MediationPairState_init_Inr(2) [OF made] by (simp add: T_Address_instance_def)
  show "\<exists>payee. payee_transfer' = VLockedTransferUnsignedState payee"
    using MediationPairState_init_Inr(3) [OF made] by blast
  show "MediationPairState.payer_state pair = ''payer_pending''"
    by (rule MediationPairState_init_Inr(4) [OF made])
  show "MediationPairState.payee_state pair = ''payee_pending''"
    by (rule MediationPairState_init_Inr(5) [OF made])
next
  assume "(\<forall>payer. payer_transfer' \<noteq> VLockedTransferSignedState payer)
          \<or> T_Address_instance payee_address' = None
          \<or> (\<forall>payee. payee_transfer' \<noteq> VLockedTransferUnsignedState payee)"
  then show "\<exists>msg. MediationPairState_init payer_transfer' payee_address' payee_transfer'
           = Inl (ValueError msg)"
    by (rule MediationPairState_init_ill_shaped)
next
  show "\<exists>made. MediationPairState_init (VLockedTransferSignedState payer0) (VBytes address0)
         (VLockedTransferUnsignedState payee0) = Inr made"
    by (simp add: MediationPairState_init_well_shaped)
qed

theorem MediationPairState_init_guards_witness:
  "MediationPairState.payer_state
     \<lparr>MediationPairState.payee_address = example_address 4,
      MediationPairState.payee_transfer = example_payee example_locksroot 99 45,
      MediationPairState.payee_state = ''payee_pending'',
      MediationPairState.payer_transfer = example_payer example_locksroot 100 50,
      MediationPairState.payer_state = ''payer_pending''\<rparr> = ''payer_pending''
   \<and> (\<exists>msg. MediationPairState_init (VInt 7 :: unit pyval) (VBytes (example_address 4))
         (VLockedTransferUnsignedState (example_payee example_locksroot 99 45)) = Inl (ValueError msg))
   \<and> (\<exists>msg. MediationPairState_init (VLockedTransferSignedState (example_payer example_locksroot 100 50))
         (VStr ''0x04'' :: unit pyval)
         (VLockedTransferUnsignedState (example_payee example_locksroot 99 45)) = Inl (ValueError msg))
   \<and> (\<exists>msg. MediationPairState_init (VLockedTransferSignedState (example_payer example_locksroot 100 50))
         (VBytes (example_address 4) :: unit pyval)
         (VLockedTransferSignedState (example_payer example_locksroot 99 45)) = Inl (ValueError msg))"
proof -
  let ?pair = "\<lparr>MediationPairState.payee_address = example_address 4,
      MediationPairState.payee_transfer = example_payee example_locksroot 99 45,
      MediationPairState.payee_state = ''payee_pending'',
      MediationPairState.payer_transfer = example_payer example_locksroot 100 50,
      MediationPairState.payer_state = ''payer_pending''\<rparr>"
  have made: "MediationPairState_init (VLockedTransferSignedState (example_payer example_locksroot 100 50) :: unit pyval)
      (VBytes (example_address 4)) (VLockedTransferUnsignedState (example_payee example_locksroot 99 45)) = Inr ?pair"
    by (simp add: MediationPairState_init_def T_Address_instance_def)
  have a: "MediationPairState.payer_state ?pair = ''payer_pending''"
    using MediationPairState_init_guards [THEN conjunct1, rule_format, OF made] by simp
  have b: "\<exists>msg. MediationPairState_init (VInt 7 :: unit pyval) (VBytes (example_address 4))
         (VLockedTransferUnsignedState (example_payee example_locksroot 99 45)) = Inl (ValueError msg)"
    by (rule MediationPairState_init_guards [THEN conjunct2, THEN conjunct1, rule_format]) simp
  have c: "\<exists>msg. MediationPairState_init (VLockedTransferSignedState (example_payer example_locksroot 100 50))
         (VStr ''0x04'' :: unit pyval)
         (VLockedTransferUnsignedState (example_payee example_locksroot 99 45)) = Inl (ValueError msg)"
    by (rule MediationPairState_init_guards [THEN conjunct2, THEN conjunct1, rule_format])
      (simp add: T_Address_instance_def)
  have d: "\<exists>msg. MediationPairState_init (VLockedTransferSignedState (example_payer example_locksroot 100 50))
         (VBytes (example_address 4) :: unit pyval)
         (VLockedTransferSignedState (example_payer example_locksroot 99 45)) = Inl (ValueError msg)"
    by (rule MediationPairState_init_guards [THEN conjunct2, THEN conjunct1, rule_format]) simp
  from a b c d show ?thesis by blast
qed

subsection \<open>The empty locksroot is compared by identity\<close>

text \<open>
  C3. The claim: a balance proof whose locksroot equals the empty Merkle root makes
  both locked-transfer constructors raise \<^verbatim>\<open>ValueError\<close>. The constructors compare
  with \<^verbatim>\<open>is\<close>. At a locksroot that is equal to \<^verbatim>\<open>EMPTY_MERKLE_ROOT\<close> and is another
  object, both constructors return a transfer whose locksroot equals the empty
  root.
\<close>

theorem LockedTransfer_init_accepts_equal_empty_root:
  "LockedTransferSignedState_init example_EMPTY_MERKLE_ROOT 1 (example_address 0)
     (VBalanceProofSignedState (example_signed_proof example_decoded_empty_root) :: unit pyval)
     (VHashTimeLockState (HashTimeLockState_init 100 50 example_hash))
     (example_address 2) (example_address 5)
     = Inr (example_payer example_decoded_empty_root 100 50)
   \<and> LockedTransferUnsignedState_init example_EMPTY_MERKLE_ROOT 1 (example_address 0)
     (VBalanceProofUnsignedState (example_unsigned_proof example_decoded_empty_root) :: unit pyval)
     (VHashTimeLockState (HashTimeLockState_init 100 50 example_hash))
     (example_address 2) (example_address 5)
     = Inr (example_payee example_decoded_empty_root 100 50)
   \<and> bytes_eq (BalanceProofSignedState.locksroot (LockedTransferSignedState.balance_proof
        (example_payer example_decoded_empty_root 100 50))) example_EMPTY_MERKLE_ROOT
   \<and> bytes_eq (BalanceProofUnsignedState.locksroot (LockedTransferUnsignedState.balance_proof
        (example_payee example_decoded_empty_root 100 50))) example_EMPTY_MERKLE_ROOT"
  by (simp add: LockedTransferSignedState_init_def LockedTransferUnsignedState_init_def
        bytes_is_def bytes_eq_def example_payer_def example_payee_def
        example_signed_proof_def example_unsigned_proof_def BalanceProofSignedState_init_def
        example_decoded_empty_root_def example_EMPTY_MERKLE_ROOT_def HashTimeLockState_init_def)

text \<open>
  C10. The claim: \<^verbatim>\<open>lockedtransfersigned_from_message\<close> copies the message's
  fields into a signed transfer, and raises \<^verbatim>\<open>ValueError\<close> when the message's
  locksroot is the empty Merkle root. The copy is
  \<open>lockedtransfersigned_from_message_other_root\<close>. The raise happens only for the
  constant object itself: at a message whose locksroot is equal to
  \<^verbatim>\<open>EMPTY_MERKLE_ROOT\<close> and is another object, the function returns a transfer.
\<close>

theorem lockedtransfersigned_from_message_accepts_equal_empty_root:
  "lockedtransfersigned_from_message example_EMPTY_MERKLE_ROOT
     (example_message example_decoded_empty_root)
     = Inr (example_payer example_decoded_empty_root 100 50)
   \<and> bytes_eq (LockedTransfer.locksroot (example_message example_decoded_empty_root))
       example_EMPTY_MERKLE_ROOT"
  by (simp add: lockedtransfersigned_from_message_def LockedTransferSignedState_init_def
        bytes_is_def bytes_eq_def example_payer_def example_message_def
        example_signed_proof_def BalanceProofSignedState_init_def
        example_decoded_empty_root_def example_EMPTY_MERKLE_ROOT_def HashTimeLockState_init_def)

subsection \<open>Equality is structural\<close>

text \<open>
  One lemma per class of the module: \<^verbatim>\<open>x == v\<close> holds exactly when \<open>v\<close> is an
  instance of the class of \<open>x\<close> whose compared fields are pairwise equal to those of
  \<open>x\<close>, and \<^verbatim>\<open>x != v\<close> is its negation.
\<close>

lemma InitiatorPaymentState_eq_structural:
  "(InitiatorPaymentState_eq (x :: InitiatorPaymentState) (v :: 'o pyval)
      = (\<exists>y. v = VInitiatorPaymentState y
        \<and> bytes_eq (InitiatorPaymentState.initiator x) (InitiatorPaymentState.initiator y)
        \<and> list_all2 bytes_eq (InitiatorPaymentState.cancelled_channels x)
              (InitiatorPaymentState.cancelled_channels y)))
   \<and> InitiatorPaymentState_ne x v = (\<not> InitiatorPaymentState_eq x v)"
  by (cases v) (auto simp: InitiatorPaymentState_eq_def InitiatorPaymentState_ne_def)

lemma InitiatorTransferState_eq_structural:
  "(InitiatorTransferState_eq (x :: ('o InitiatorTransferState)) (v :: 'o pyval)
      = (\<exists>y. v = VInitiatorTransferState y
        \<and> TransferDescriptionWithSecretState_eq (InitiatorTransferState.transfer_description x)
          (VTransferDescriptionWithSecretState (InitiatorTransferState.transfer_description y) :: 'o pyval)
        \<and> bytes_eq (InitiatorTransferState.channel_identifier x)
              (InitiatorTransferState.channel_identifier y)
        \<and> option_eq (\<lambda>a b. LockedTransferUnsignedState_eq a (VLockedTransferUnsignedState b :: 'o pyval))
              (InitiatorTransferState.transfer x) (InitiatorTransferState.transfer y)
        \<and> option_eq (=) (InitiatorTransferState.secretrequest x)
              (InitiatorTransferState.secretrequest y)
        \<and> option_eq (=) (InitiatorTransferState.revealsecret x)
              (InitiatorTransferState.revealsecret y)))
   \<and> InitiatorTransferState_ne x v = (\<not> InitiatorTransferState_eq x v)"
  by (cases v) (auto simp: InitiatorTransferState_eq_def InitiatorTransferState_ne_def)

lemma MediatorTransferState_eq_structural:
  "(MediatorTransferState_eq (x :: MediatorTransferState) (v :: 'o pyval)
      = (\<exists>y. v = VMediatorTransferState y
        \<and> bytes_eq (MediatorTransferState.secrethash x) (MediatorTransferState.secrethash y)
        \<and> option_eq bytes_eq (MediatorTransferState.secret x) (MediatorTransferState.secret y)
        \<and> list_all2 (\<lambda>a b. MediationPairState_eq a (VMediationPairState b :: 'o pyval))
              (MediatorTransferState.transfers_pair x) (MediatorTransferState.transfers_pair y)))
   \<and> MediatorTransferState_ne x v = (\<not> MediatorTransferState_eq x v)"
  by (cases v) (auto simp: MediatorTransferState_eq_def MediatorTransferState_ne_def)

lemma TargetTransferState_eq_structural:
  "(TargetTransferState_eq (x :: ('o TargetTransferState)) (v :: 'o pyval)
      = (\<exists>y. v = VTargetTransferState y
        \<and> TargetTransferState.route x = TargetTransferState.route y
        \<and> LockedTransferSignedState_eq (TargetTransferState.transfer x)
              (VLockedTransferSignedState (TargetTransferState.transfer y) :: 'o pyval)
        \<and> option_eq bytes_eq (TargetTransferState.secret x) (TargetTransferState.secret y)
        \<and> TargetTransferState.state x = TargetTransferState.state y))
   \<and> TargetTransferState_ne x v = (\<not> TargetTransferState_eq x v)"
  by (cases v) (auto simp: TargetTransferState_eq_def TargetTransferState_ne_def)

lemma LockedTransferUnsignedState_eq_structural:
  "(LockedTransferUnsignedState_eq (x :: LockedTransferUnsignedState) (v :: 'o pyval)
      = (\<exists>y. v = VLockedTransferUnsignedState y
        \<and> LockedTransferUnsignedState.identifier x = LockedTransferUnsignedState.identifier y
        \<and> bytes_eq (LockedTransferUnsignedState.token x) (LockedTransferUnsignedState.token y)
        \<and> BalanceProofUnsignedState_eq (LockedTransferUnsignedState.balance_proof x)
              (VBalanceProofUnsignedState (LockedTransferUnsignedState.balance_proof y) :: 'o pyval)
        \<and> HashTimeLockState_eq (LockedTransferUnsignedState.lock x)
              (VHashTimeLockState (LockedTransferUnsignedState.lock y) :: 'o pyval)
        \<and> bytes_eq (LockedTransferUnsignedState.initiator x) (LockedTransferUnsignedState.initiator y)
        \<and> bytes_eq (LockedTransferUnsignedState.target x) (LockedTransferUnsignedState.target y)))
   \<and> LockedTransferUnsignedState_ne x v = (\<not> LockedTransferUnsignedState_eq x v)"
  by (cases v) (auto simp: LockedTransferUnsignedState_eq_def LockedTransferUnsignedState_ne_def)

lemma LockedTransferSignedState_eq_structural:
  "(LockedTransferSignedState_eq (x :: LockedTransferSignedState) (v :: 'o pyval)
      = (\<exists>y. v = VLockedTransferSignedState y
        \<and> LockedTransferSignedState.identifier x = LockedTransferSignedState.identifier y
        \<and> bytes_eq (LockedTransferSignedState.token x) (LockedTransferSignedState.token y)
        \<and> BalanceProofSignedState_eq (LockedTransferSignedState.balance_proof x)
              (VBalanceProofSignedState (LockedTransferSignedState.balance_proof y) :: 'o pyval)
        \<and> HashTimeLockState_eq (LockedTransferSignedState.lock x)
              (VHashTimeLockState (LockedTransferSignedState.lock y) :: 'o pyval)
        \<and> bytes_eq (LockedTransferSignedState.initiator x) (LockedTransferSignedState.initiator y)
        \<and> bytes_eq (LockedTransferSignedState.target x) (LockedTransferSignedState.target y)))
   \<and> LockedTransferSignedState_ne x v = (\<not> LockedTransferSignedState_eq x v)"
  by (cases v) (auto simp: LockedTransferSignedState_eq_def LockedTransferSignedState_ne_def)

lemma TransferDescriptionWithSecretState_eq_structural:
  "(TransferDescriptionWithSecretState_eq (x :: TransferDescriptionWithSecretState) (v :: 'o pyval)
      = (\<exists>y. v = VTransferDescriptionWithSecretState y
        \<and> TransferDescriptionWithSecretState.identifier x
          = TransferDescriptionWithSecretState.identifier y
        \<and> TransferDescriptionWithSecretState.amount x = TransferDescriptionWithSecretState.amount y
        \<and> bytes_eq (TransferDescriptionWithSecretState.registry x)
              (TransferDescriptionWithSecretState.registry y)
        \<and> bytes_eq (TransferDescriptionWithSecretState.token x)
              (TransferDescriptionWithSecretState.token y)
        \<and> bytes_eq (TransferDescriptionWithSecretState.initiator x)
              (TransferDescriptionWithSecretState.initiator y)
        \<and> bytes_eq (TransferDescriptionWithSecretState.target x)
              (TransferDescriptionWithSecretState.target y)
        \<and> bytes_eq (TransferDescriptionWithSecretState.secret x)
              (TransferDescriptionWithSecretState.secret y)
        \<and> bytes_eq (TransferDescriptionWithSecretState.secrethash x)
              (TransferDescriptionWithSecretState.secrethash y)))
   \<and> TransferDescriptionWithSecretState_ne x v = (\<not> TransferDescriptionWithSecretState_eq x v)"
  by (cases v) (auto simp: TransferDescriptionWithSecretState_eq_def TransferDescriptionWithSecretState_ne_def)

lemma MediationPairState_eq_structural:
  "(MediationPairState_eq (x :: MediationPairState) (v :: 'o pyval)
      = (\<exists>y. v = VMediationPairState y
        \<and> bytes_eq (MediationPairState.payee_address x) (MediationPairState.payee_address y)
        \<and> LockedTransferUnsignedState_eq (MediationPairState.payee_transfer x)
              (VLockedTransferUnsignedState (MediationPairState.payee_transfer y) :: 'o pyval)
        \<and> MediationPairState.payee_state x = MediationPairState.payee_state y
        \<and> LockedTransferSignedState_eq (MediationPairState.payer_transfer x)
              (VLockedTransferSignedState (MediationPairState.payer_transfer y) :: 'o pyval)
        \<and> MediationPairState.payer_state x = MediationPairState.payer_state y))
   \<and> MediationPairState_ne x v = (\<not> MediationPairState_eq x v)"
  by (cases v) (auto simp: MediationPairState_eq_def MediationPairState_ne_def)

text \<open>
  C7. Equality on every state type of the module is structural: for \<open>x\<close> of a state
  class and any value \<open>v\<close>, \<^verbatim>\<open>x == v\<close> holds if and only if \<open>v\<close> is a value of
  the same class and all compared fields of \<open>x\<close> and \<open>v\<close> are pairwise equal (so
  a value of another type is never equal to \<open>x\<close>), and \<^verbatim>\<open>x != v\<close> holds if and only
  if \<^verbatim>\<open>x == v\<close> does not. The eight conjunct pairs are the eight classes, in the
  order of the source.
\<close>

theorem state_equality_structural:
  "((InitiatorPaymentState_eq (ips :: InitiatorPaymentState) (v_ips :: 'o pyval)
      = (\<exists>y. v_ips = VInitiatorPaymentState y
        \<and> bytes_eq (InitiatorPaymentState.initiator ips) (InitiatorPaymentState.initiator y)
        \<and> list_all2 bytes_eq (InitiatorPaymentState.cancelled_channels ips)
              (InitiatorPaymentState.cancelled_channels y)))
   \<and> InitiatorPaymentState_ne ips v_ips = (\<not> InitiatorPaymentState_eq ips v_ips))
   \<and> ((InitiatorTransferState_eq (its :: ('o InitiatorTransferState)) (v_its :: 'o pyval)
      = (\<exists>y. v_its = VInitiatorTransferState y
        \<and> TransferDescriptionWithSecretState_eq (InitiatorTransferState.transfer_description its)
          (VTransferDescriptionWithSecretState (InitiatorTransferState.transfer_description y) :: 'o pyval)
        \<and> bytes_eq (InitiatorTransferState.channel_identifier its)
              (InitiatorTransferState.channel_identifier y)
        \<and> option_eq (\<lambda>a b. LockedTransferUnsignedState_eq a (VLockedTransferUnsignedState b :: 'o pyval))
              (InitiatorTransferState.transfer its) (InitiatorTransferState.transfer y)
        \<and> option_eq (=) (InitiatorTransferState.secretrequest its)
              (InitiatorTransferState.secretrequest y)
        \<and> option_eq (=) (InitiatorTransferState.revealsecret its)
              (InitiatorTransferState.revealsecret y)))
   \<and> InitiatorTransferState_ne its v_its = (\<not> InitiatorTransferState_eq its v_its))
   \<and> ((MediatorTransferState_eq (mts :: MediatorTransferState) (v_mts :: 'o pyval)
      = (\<exists>y. v_mts = VMediatorTransferState y
        \<and> bytes_eq (MediatorTransferState.secrethash mts) (MediatorTransferState.secrethash y)
        \<and> option_eq bytes_eq (MediatorTransferState.secret mts) (MediatorTransferState.secret y)
        \<and> list_all2 (\<lambda>a b. MediationPairState_eq a (VMediationPairState b :: 'o pyval))
              (MediatorTransferState.transfers_pair mts) (MediatorTransferState.transfers_pair y)))
   \<and> MediatorTransferState_ne mts v_mts = (\<not> MediatorTransferState_eq mts v_mts))
   \<and> ((TargetTransferState_eq (tts :: ('o TargetTransferState)) (v_tts :: 'o pyval)
      = (\<exists>y. v_tts = VTargetTransferState y
        \<and> TargetTransferState.route tts = TargetTransferState.route y
        \<and> LockedTransferSignedState_eq (TargetTransferState.transfer tts)
              (VLockedTransferSignedState (TargetTransferState.transfer y) :: 'o pyval)
        \<and> option_eq bytes_eq (TargetTransferState.secret tts) (TargetTransferState.secret y)
        \<and> TargetTransferState.state tts = TargetTransferState.state y))
   \<and> TargetTransferState_ne tts v_tts = (\<not> TargetTransferState_eq tts v_tts))
   \<and> ((LockedTransferUnsignedState_eq (ltu :: LockedTransferUnsignedState) (v_ltu :: 'o pyval)
      = (\<exists>y. v_ltu = VLockedTransferUnsignedState y
        \<and> LockedTransferUnsignedState.identifier ltu = LockedTransferUnsignedState.identifier y
        \<and> bytes_eq (LockedTransferUnsignedState.token ltu) (LockedTransferUnsignedState.token y)
        \<and> BalanceProofUnsignedState_eq (LockedTransferUnsignedState.balance_proof ltu)
              (VBalanceProofUnsignedState (LockedTransferUnsignedState.balance_proof y) :: 'o pyval)
        \<and> HashTimeLockState_eq (LockedTransferUnsignedState.lock ltu)
              (VHashTimeLockState (LockedTransferUnsignedState.lock y) :: 'o pyval)
        \<and> bytes_eq (LockedTransferUnsignedState.initiator ltu) (LockedTransferUnsignedState.initiator y)
        \<and> bytes_eq (LockedTransferUnsignedState.target ltu) (LockedTransferUnsignedState.target y)))
   \<and> LockedTransferUnsignedState_ne ltu v_ltu = (\<not> LockedTransferUnsignedState_eq ltu v_ltu))
   \<and> ((LockedTransferSignedState_eq (lts :: LockedTransferSignedState) (v_lts :: 'o pyval)
      = (\<exists>y. v_lts = VLockedTransferSignedState y
        \<and> LockedTransferSignedState.identifier lts = LockedTransferSignedState.identifier y
        \<and> bytes_eq (LockedTransferSignedState.token lts) (LockedTransferSignedState.token y)
        \<and> BalanceProofSignedState_eq (LockedTransferSignedState.balance_proof lts)
              (VBalanceProofSignedState (LockedTransferSignedState.balance_proof y) :: 'o pyval)
        \<and> HashTimeLockState_eq (LockedTransferSignedState.lock lts)
              (VHashTimeLockState (LockedTransferSignedState.lock y) :: 'o pyval)
        \<and> bytes_eq (LockedTransferSignedState.initiator lts) (LockedTransferSignedState.initiator y)
        \<and> bytes_eq (LockedTransferSignedState.target lts) (LockedTransferSignedState.target y)))
   \<and> LockedTransferSignedState_ne lts v_lts = (\<not> LockedTransferSignedState_eq lts v_lts))
   \<and> ((TransferDescriptionWithSecretState_eq (tds :: TransferDescriptionWithSecretState) (v_tds :: 'o pyval)
      = (\<exists>y. v_tds = VTransferDescriptionWithSecretState y
        \<and> TransferDescriptionWithSecretState.identifier tds
          = TransferDescriptionWithSecretState.identifier y
        \<and> TransferDescriptionWithSecretState.amount tds = TransferDescriptionWithSecretState.amount y
        \<and> bytes_eq (TransferDescriptionWithSecretState.registry tds)
              (TransferDescriptionWithSecretState.registry y)
        \<and> bytes_eq (TransferDescriptionWithSecretState.token tds)
              (TransferDescriptionWithSecretState.token y)
        \<and> bytes_eq (TransferDescriptionWithSecretState.initiator tds)
              (TransferDescriptionWithSecretState.initiator y)
        \<and> bytes_eq (TransferDescriptionWithSecretState.target tds)
              (TransferDescriptionWithSecretState.target y)
        \<and> bytes_eq (TransferDescriptionWithSecretState.secret tds)
              (TransferDescriptionWithSecretState.secret y)
        \<and> bytes_eq (TransferDescriptionWithSecretState.secrethash tds)
              (TransferDescriptionWithSecretState.secrethash y)))
   \<and> TransferDescriptionWithSecretState_ne tds v_tds = (\<not> TransferDescriptionWithSecretState_eq tds v_tds))
   \<and> ((MediationPairState_eq (mps :: MediationPairState) (v_mps :: 'o pyval)
      = (\<exists>y. v_mps = VMediationPairState y
        \<and> bytes_eq (MediationPairState.payee_address mps) (MediationPairState.payee_address y)
        \<and> LockedTransferUnsignedState_eq (MediationPairState.payee_transfer mps)
              (VLockedTransferUnsignedState (MediationPairState.payee_transfer y) :: 'o pyval)
        \<and> MediationPairState.payee_state mps = MediationPairState.payee_state y
        \<and> LockedTransferSignedState_eq (MediationPairState.payer_transfer mps)
              (VLockedTransferSignedState (MediationPairState.payer_transfer y) :: 'o pyval)
        \<and> MediationPairState.payer_state mps = MediationPairState.payer_state y))
   \<and> MediationPairState_ne mps v_mps = (\<not> MediationPairState_eq mps v_mps))"
  by (intro conjI)
    (simp_all only: InitiatorPaymentState_eq_structural InitiatorTransferState_eq_structural MediatorTransferState_eq_structural TargetTransferState_eq_structural LockedTransferUnsignedState_eq_structural LockedTransferSignedState_eq_structural TransferDescriptionWithSecretState_eq_structural MediationPairState_eq_structural)

section \<open>The round trip through the mapping representation\<close>

lemma digit_value_digit_char: "d < 10 \<Longrightarrow> digit_value (digit_char d) = Some d"
  by (simp add: digit_value_def digit_char_def)

lemma parse_digits_append:
  "parse_digits acc (xs @ ys) =
     (case parse_digits acc xs of None \<Rightarrow> None | Some a \<Rightarrow> parse_digits a ys)"
  by (induction xs arbitrary: acc) (auto split: option.splits)

lemma decimal_not_Nil: "decimal n \<noteq> []"
  by (subst decimal.simps) simp

lemma parse_digits_decimal: "parse_digits 0 (decimal n) = Some n"
proof (induction n rule: decimal.induct)
  case (1 n)
  show ?case
  proof (cases "n < 10")
    case True
    then show ?thesis
      by (subst decimal.simps) (simp add: digit_value_digit_char)
  next
    case False
    have "parse_digits 0 (decimal n)
          = parse_digits 0 (decimal (n div 10) @ [digit_char (n mod 10)])"
      using False by (subst decimal.simps) simp
    also have "\<dots> = parse_digits (n div 10) [digit_char (n mod 10)]"
      using 1 False by (simp add: parse_digits_append)
    also have "\<dots> = Some n"
      by (simp add: digit_value_digit_char)
    finally show ?thesis .
  qed
qed

lemma parse_decimal_decimal: "parse_decimal (decimal n) = Some n"
  by (simp add: parse_decimal_def decimal_not_Nil parse_digits_decimal)

lemma hex_value_hex_char: "d < 16 \<Longrightarrow> hex_value (hex_char d) = Some d"
  by (simp add: hex_value_def hex_char_def)

lemma parse_hex_digits_hex_byte:
  "parse_hex_digits (hex_byte b @ cs) = map_option ((#) b) (parse_hex_digits cs)"
proof -
  have "unat b < 256"
    using unsigned_less [of b, where ?'a = nat] by simp
  then have "unat b div 16 < 16"
    by simp
  then show ?thesis
    by (simp add: hex_byte_def hex_value_hex_char)
qed

lemma parse_hex_digits_concat: "parse_hex_digits (concat (map hex_byte bs)) = Some bs"
  by (induction bs) (simp_all add: parse_hex_digits_hex_byte)

lemma parse_hex_hex: "parse_hex (hex bs) = Some bs"
  by (simp add: parse_hex_def hex_def parse_hex_digits_concat)

lemma numeric_field_decimal:
  "map_of m key = Some (decimal (unat w)) \<Longrightarrow> numeric_field m key = Some w"
  by (simp add: numeric_field_def parse_decimal_decimal)

lemma binary_field_hex:
  "map_of m key = Some (hex bs) \<Longrightarrow> binary_field m key = Some bs"
  by (simp add: binary_field_def parse_hex_hex)

lemma DirectTransfer_roundtrip:
  "DirectTransfer_from_mapping (DirectTransfer_to_mapping x) = Some x"
  by (simp add: DirectTransfer_from_mapping_def DirectTransfer_to_mapping_def
        numeric_field_decimal binary_field_hex)

lemma LockedTransfer_roundtrip:
  "LockedTransfer_from_mapping (LockedTransfer_to_mapping x) = Some x"
  by (simp add: LockedTransfer_from_mapping_def LockedTransfer_to_mapping_def
        numeric_field_decimal binary_field_hex)

subsection \<open>The encodings on concrete strings\<close>

lemma decimal_example: "decimal 1234 = ''1234''"
  by (simp add: decimal.simps digit_char_def char_of_def bit_0)

lemma hex_example: "hex [0, 255, 16] = ''0x00ff10''"
  by (simp add: hex_def hex_byte_def hex_char_def char_of_def bit_0)

lemma numeric_field_UINT64_MAX:
  "(numeric_field [(''nonce'', ''18446744073709551615'')] ''nonce'' :: 64 word option)
     = Some UINT64_MAX"
  by (simp add: numeric_field_def parse_decimal_def digit_value_def UINT64_MAX_def)

lemma numeric_field_refuses_overflow:
  "(numeric_field [(''nonce'', ''18446744073709551616'')] ''nonce'' :: 64 word option) = None"
  by (simp add: numeric_field_def parse_decimal_def digit_value_def)

lemma from_mapping_missing_key: "DirectTransfer_from_mapping [] = None"
  by (simp add: DirectTransfer_from_mapping_def numeric_field_def)

lemma parse_hex_refuses:
  "parse_hex ''00ff'' = None" "parse_hex ''0x0g'' = None" "parse_hex ''0x0'' = None"
  by (simp_all add: parse_hex_def hex_value_def)

lemma parse_decimal_refuses: "parse_decimal [] = None" "parse_decimal ''12a'' = None"
  by (simp_all add: parse_decimal_def digit_value_def)

subsection \<open>The round-trip law\<close>

text \<open>
  C4. For every \<^verbatim>\<open>DirectTransfer\<close>, \<^verbatim>\<open>LockedTransfer\<close> and \<^verbatim>\<open>RefundTransfer\<close> value
  (identifier and nonce unsigned 64-bit, transferred amount, amount, fee and
  expiration unsigned 256-bit, the other fields byte strings), reading back its
  mapping representation returns the value itself:
  \<^verbatim>\<open>from_mapping(x.to_mapping()) == x\<close>. The boundary values \<open>0\<close>, \<open>1\<close>,
  \<^verbatim>\<open>UINT64_MAX\<close> and \<^verbatim>\<open>UINT256_MAX\<close> are values of these types.
\<close>

theorem message_mapping_roundtrip:
  "DirectTransfer_from_mapping (DirectTransfer_to_mapping direct) = Some direct
   \<and> LockedTransfer_from_mapping (LockedTransfer_to_mapping locked) = Some locked
   \<and> RefundTransfer_from_mapping (RefundTransfer_to_mapping refund) = Some refund"
  by (simp add: DirectTransfer_roundtrip LockedTransfer_roundtrip
        RefundTransfer_from_mapping_def RefundTransfer_to_mapping_def)

theorem message_mapping_roundtrip_boundaries:
  "DirectTransfer_from_mapping (DirectTransfer_to_mapping
      \<lparr>DirectTransfer_fields.nonce = UINT64_MAX,
       DirectTransfer_fields.identifier = 0,
       DirectTransfer_fields.token = replicate 20 1,
       DirectTransfer_fields.channel = replicate 20 2,
       DirectTransfer_fields.recipient = replicate 20 3,
       DirectTransfer_fields.locksroot = replicate 32 0,
       DirectTransfer_fields.transferred_amount = UINT256_MAX,
       DirectTransfer_fields.signature = replicate 65 255\<rparr>)
     = Some \<lparr>DirectTransfer_fields.nonce = UINT64_MAX,
       DirectTransfer_fields.identifier = 0,
       DirectTransfer_fields.token = replicate 20 1,
       DirectTransfer_fields.channel = replicate 20 2,
       DirectTransfer_fields.recipient = replicate 20 3,
       DirectTransfer_fields.locksroot = replicate 32 0,
       DirectTransfer_fields.transferred_amount = UINT256_MAX,
       DirectTransfer_fields.signature = replicate 65 255\<rparr>
   \<and> LockedTransfer_from_mapping (LockedTransfer_to_mapping
      \<lparr>LockedTransfer_fields.nonce = 1,
       LockedTransfer_fields.identifier = UINT64_MAX,
       LockedTransfer_fields.expiration = 50,
       LockedTransfer_fields.token = replicate 20 1,
       LockedTransfer_fields.channel = replicate 20 2,
       LockedTransfer_fields.recipient = replicate 20 3,
       LockedTransfer_fields.target = replicate 20 4,
       LockedTransfer_fields.initiator = replicate 20 5,
       LockedTransfer_fields.locksroot = replicate 32 7,
       LockedTransfer_fields.secrethash = replicate 32 9,
       LockedTransfer_fields.transferred_amount = 0,
       LockedTransfer_fields.amount = UINT256_MAX,
       LockedTransfer_fields.fee = UINT256_MAX,
       LockedTransfer_fields.signature = replicate 65 255\<rparr>)
     = Some \<lparr>LockedTransfer_fields.nonce = 1,
       LockedTransfer_fields.identifier = UINT64_MAX,
       LockedTransfer_fields.expiration = 50,
       LockedTransfer_fields.token = replicate 20 1,
       LockedTransfer_fields.channel = replicate 20 2,
       LockedTransfer_fields.recipient = replicate 20 3,
       LockedTransfer_fields.target = replicate 20 4,
       LockedTransfer_fields.initiator = replicate 20 5,
       LockedTransfer_fields.locksroot = replicate 32 7,
       LockedTransfer_fields.secrethash = replicate 32 9,
       LockedTransfer_fields.transferred_amount = 0,
       LockedTransfer_fields.amount = UINT256_MAX,
       LockedTransfer_fields.fee = UINT256_MAX,
       LockedTransfer_fields.signature = replicate 65 255\<rparr>
   \<and> unat UINT64_MAX = 2 ^ 64 - 1
   \<and> unat UINT256_MAX = 2 ^ 256 - 1"
proof -
  have bounds: "unat UINT64_MAX = 2 ^ 64 - 1" "unat UINT256_MAX = 2 ^ 256 - 1"
    by (simp_all add: UINT64_MAX_def UINT256_MAX_def unsigned_minus_1_eq_mask mask_eq_exp_minus_1)
  show ?thesis
    using message_mapping_roundtrip bounds by blast
qed

end
